theory Spec2Isabelle
  imports Complex_Main
begin

section \<open>Compile-time disjunction over a boolean pack (any\_of.hpp)\<close>

text \<open>
  The variadic template \<^verbatim>\<open>any_of<bool... values>\<close> is modelled on the list of its
  template arguments.  The primary template (lines 20-21) derives from
  \<^verbatim>\<open>std::false_type\<close>; it is the only one that matches the empty pack.  The
  partial specialisation for a leading \<^verbatim>\<open>true\<close> (lines 23-24) derives from
  \<^verbatim>\<open>std::true_type\<close>, the one for a leading \<^verbatim>\<open>false\<close> (lines 26-27) derives from
  \<^verbatim>\<open>any_of<others...>\<close>.
\<close>

fun any_of :: "bool list \<Rightarrow> bool" where
  "any_of [] = False"
| "any_of (True # others) = True"
| "any_of (False # others) = any_of others"

definition any_of_v :: "bool list \<Rightarrow> bool" where
  "any_of_v values = any_of values"

section \<open>Data model of the DD4hep layer builder (DD4hepLayerBuilder.cpp)\<close>

text \<open>
  A C++ \<^verbatim>\<open>double\<close> is modelled as a real number: the properties below are
  about which expression the code evaluates, not about rounding or NaN.
\<close>

datatype Vector3D = Vector3D (vx: real) (vy: real) (vz: real)

definition vadd :: "Vector3D \<Rightarrow> Vector3D \<Rightarrow> Vector3D" where
  "vadd a b = Vector3D (vx a + vx b) (vy a + vy b) (vz a + vz b)"

definition vsub :: "Vector3D \<Rightarrow> Vector3D \<Rightarrow> Vector3D" where
  "vsub a b = Vector3D (vx a - vx b) (vy a - vy b) (vz a - vz b)"

definition vscale :: "Vector3D \<Rightarrow> real \<Rightarrow> Vector3D" where
  "vscale a k = Vector3D (vx a * k) (vy a * k) (vz a * k)"

text \<open>A rotation is kept as its three columns, \<open>col2\<close> being \<^verbatim>\<open>rotation().col(2)\<close>.\<close>

record RotationMatrix3D =
  col0 :: Vector3D
  col1 :: Vector3D
  col2 :: Vector3D

record Transform3D =
  rotation :: RotationMatrix3D
  translation :: Vector3D

text \<open>
  \<^verbatim>\<open>TGeoMatrix\<close>: \<^verbatim>\<open>GetRotationMatrix()\<close> and \<^verbatim>\<open>GetTranslation()\<close> return pointers to
  arrays of 9 and 3 doubles, read here by index.
\<close>

record TGeoMatrix =
  GetRotationMatrix :: "nat \<Rightarrow> real"
  GetTranslation :: "nat \<Rightarrow> real"

text \<open>
  The native shape of a volume.  Only the tube segment is inspected by the builder; every
  other ROOT shape makes \<^verbatim>\<open>dynamic_cast<TGeoTubeSeg*>\<close> return the null pointer.
\<close>

datatype TGeoShape =
  TGeoTubeSeg (GetRmin: real) (GetRmax: real) (GetDz: real)
| TGeoOtherShape

datatype LayerMaterialPos = inner | central | outer

datatype SurfaceMaterialDescr = SurfaceMaterialDescr nat
datatype DigitizationModule = DigitizationModule nat

record IActsExtension =
  axes :: string
  buildEnvelope :: bool
  envelopeR :: real
  envelopeZ :: real
  hasSupportMaterial :: bool
  materialBins :: "nat \<times> nat"
  layerMaterialPosition :: LayerMaterialPos
  material :: "SurfaceMaterialDescr option"
  digitizationModule :: "DigitizationModule option"

record DDMaterial =
  name :: string
  radLength :: real
  intLength :: real
  A :: real
  Z :: real
  density :: real

text \<open>
  \<^verbatim>\<open>dd4hep::DetElement\<close>.  The extension is optional (\<^verbatim>\<open>extension<T>()\<close> throws
  \<^verbatim>\<open>std::runtime_error\<close> when there is none), the shape pointer may be null, and the
  children are a \<^verbatim>\<open>std::map<std::string, DetElement>\<close>, kept as the list of its entries
  in iteration order.
\<close>

datatype DetElement =
  DetElement
    (detName: string)
    (extension: "IActsExtension option")
    (worldTransformation: TGeoMatrix)
    (GetShape: "TGeoShape option")
    (isSensitive: bool)
    (volMaterial: DDMaterial)
    (children: "(string \<times> DetElement) list")

datatype BinningOption = "open" | closed
datatype BinningValue = binR | binPhi | binZ
datatype BinningType = equidistant | arbitrary

record BinningData =
  bins :: nat
  bmin :: real
  bmax :: real
  option :: BinningOption
  binvalue :: BinningValue
  btransform :: "Transform3D option"

text \<open>
  Modelled from the spec: \<^verbatim>\<open>Acts::BinUtility\<close> (BinUtility.hpp is not part of the
  sources at hand) is "a description of how a coordinate range is discretized into
  ordered bins, possibly composed across multiple axes": the list of its axes, which
  \<^verbatim>\<open>operator+=\<close> extends.
\<close>

type_synonym BinUtility = "BinningData list"

datatype SurfaceMaterialProxy = SurfaceMaterialProxy BinUtility

text \<open>The arguments of the \<^verbatim>\<open>DD4hepDetElement\<close> constructor (lines 730-737).\<close>

record DD4hepDetElement =
  de_detElement :: DetElement
  de_axes :: string
  de_scalor :: real
  de_isDisc :: bool
  de_material :: "SurfaceMaterialDescr option"
  de_buildDigitizationModules :: bool
  de_digiModule :: "DigitizationModule option"

datatype Surface =
  SensitiveSurface DD4hepDetElement
| DiscSurface Transform3D real real "SurfaceMaterialProxy option"
| CylinderSurface Transform3D real real "SurfaceMaterialProxy option"

text \<open>
  \<^verbatim>\<open>setAssociatedMaterial\<close> on a freshly built boundary surface, and the material a
  surface carries.
\<close>

fun setAssociatedMaterial :: "Surface \<Rightarrow> SurfaceMaterialProxy option \<Rightarrow> Surface" where
  "setAssociatedMaterial (DiscSurface t r1 r2 m) p = DiscSurface t r1 r2 p"
| "setAssociatedMaterial (CylinderSurface t r h m) p = CylinderSurface t r h p"
| "setAssociatedMaterial (SensitiveSurface d) p = SensitiveSurface d"

fun associatedMaterial :: "Surface \<Rightarrow> SurfaceMaterialProxy option" where
  "associatedMaterial (DiscSurface t r1 r2 m) = m"
| "associatedMaterial (CylinderSurface t r h m) = m"
| "associatedMaterial (SensitiveSurface d) = None"

record ProtoLayer =
  minR :: real
  maxR :: real
  minZ :: real
  maxZ :: real
  envR :: "real \<times> real"
  envZ :: "real \<times> real"

record Material =
  X0 :: real
  L0 :: real
  matA :: real
  matZ :: real
  rho :: real

record MaterialProperties =
  mp_material :: Material
  mp_thickness :: real

datatype HomogeneousSurfaceMaterial = HomogeneousSurfaceMaterial MaterialProperties

fun materialThickness :: "HomogeneousSurfaceMaterial \<Rightarrow> real" where
  "materialThickness (HomogeneousSurfaceMaterial mp) = mp_thickness mp"

datatype LayerBounds = RadialBounds real real | CylinderBounds real real
datatype LayerType = "passive" | active

text \<open>
  A layer as \<^verbatim>\<open>DiscLayer::create\<close> and \<^verbatim>\<open>CylinderLayer::create\<close> receive it:
  transform, bounds, the surface array, thickness, the approach descriptor (the vector of
  surfaces it owns, or null) and the layer type; plus the material of its surface
  representation.
\<close>

record Layer =
  l_transform :: Transform3D
  l_bounds :: LayerBounds
  l_surfaceArray :: "Surface list"
  l_thickness :: real
  l_approachDescriptor :: "Surface list option"
  l_layerType :: LayerType
  l_material :: "HomogeneousSurfaceMaterial option"

text \<open>
  \<^verbatim>\<open>DD4hepLayerBuilder::Config\<close>.  The layer creator is the external collaborator of
  the delegated path; its two operations are parameters.
\<close>

record Config =
  cfg_negativeLayers :: "DetElement list"
  cfg_centralLayers :: "DetElement list"
  cfg_positiveLayers :: "DetElement list"
  cfg_discLayer :: "Surface list \<Rightarrow> BinningType \<Rightarrow> BinningType \<Rightarrow> ProtoLayer \<Rightarrow>
                    Transform3D \<Rightarrow> Surface list option \<Rightarrow> Layer"
  cfg_cylinderLayer :: "Surface list \<Rightarrow> BinningType \<Rightarrow> BinningType \<Rightarrow> ProtoLayer \<Rightarrow>
                    Transform3D \<Rightarrow> Surface list option \<Rightarrow> Layer"
  bTypeR :: BinningType
  bTypePhi :: BinningType
  bTypeZ :: BinningType
  buildDigitizationModules :: bool

text \<open>
  What the builder uses from headers that are not part of the sources at hand: the length
  unit \<^verbatim>\<open>units::_cm\<close>, the constructor \<^verbatim>\<open>ProtoLayer(surfaces)\<close> that measures a
  surface list, and the default arguments of \<^verbatim>\<open>createSensitiveSurface\<close>.
\<close>

record Externals =
  units_cm :: real
  protoLayerOf :: "Surface list \<Rightarrow> ProtoLayer"
  default_isDisc :: bool
  default_axes :: string

text \<open>
  How a call ends when it returns no layers.  \<open>LogicError\<close> and \<open>RuntimeError\<close> are
  the exceptions \<^verbatim>\<open>std::logic_error\<close> and \<^verbatim>\<open>std::runtime_error\<close>, which reach the
  caller.  \<open>UndefinedBehaviour\<close> marks a path on which the source dereferences a null
  pointer: nothing is thrown and nothing is returned there, and C++ assigns the program
  no behaviour from that point on.
\<close>

datatype error =
  LogicError string
| RuntimeError
| UndefinedBehaviour

section \<open>Transform converter, sensitive-surface factory and collector\<close>

text \<open>Lines 742-756.\<close>

definition convertTransform :: "Externals \<Rightarrow> TGeoMatrix \<Rightarrow> Transform3D" where
  "convertTransform X tGeoTrans =
     (let rot = GetRotationMatrix tGeoTrans;
          tr = GetTranslation tGeoTrans
      in \<lparr> rotation = \<lparr> col0 = Vector3D (rot 0) (rot 3) (rot 6),
                         col1 = Vector3D (rot 1) (rot 4) (rot 7),
                         col2 = Vector3D (rot 2) (rot 5) (rot 8) \<rparr>,
           translation = Vector3D (tr 0 * units_cm X) (tr 1 * units_cm X) (tr 2 * units_cm X) \<rparr>)"

text \<open>
  Lines 708-740.  A failed extension lookup is caught and leaves material and
  digitization module null.
\<close>

definition createSensitiveSurface ::
  "Config \<Rightarrow> Externals \<Rightarrow> DetElement \<Rightarrow> bool \<Rightarrow> string \<Rightarrow> Surface" where
  "createSensitiveSurface cfg X detElement isDisc axs =
     (let detExtension = extension detElement;
          mat = (case detExtension of None \<Rightarrow> None | Some e \<Rightarrow> material e);
          digi = (case detExtension of None \<Rightarrow> None | Some e \<Rightarrow> digitizationModule e)
      in SensitiveSurface
           \<lparr> de_detElement = detElement,
             de_axes = axs,
             de_scalor = units_cm X,
             de_isDisc = isDisc,
             de_material = mat,
             de_buildDigitizationModules = buildDigitizationModules cfg,
             de_digiModule = digi \<rparr>)"

text \<open>
  Lines 689-707.  The vector \<^verbatim>\<open>surfaces\<close> is passed by reference and grown by
  \<^verbatim>\<open>push_back\<close>; the model takes it and returns it.  \<open>collectChildren\<close> is the
  range-for loop over the children.
\<close>

fun collectSensitive ::
    "Config \<Rightarrow> Externals \<Rightarrow> DetElement \<Rightarrow> Surface list \<Rightarrow> string \<Rightarrow> Surface list"
  and collectChildren ::
    "Config \<Rightarrow> Externals \<Rightarrow> (string \<times> DetElement) list \<Rightarrow> Surface list \<Rightarrow> string \<Rightarrow> Surface list"
where
  "collectSensitive cfg X (DetElement n e t s b m cs) surfaces axs =
     collectChildren cfg X cs surfaces axs"
| "collectChildren cfg X [] surfaces axs = surfaces"
| "collectChildren cfg X (child # rest) surfaces axs =
     (let childDetElement = snd child;
          surfaces1 = (if isSensitive childDetElement
                       then surfaces @ [createSensitiveSurface cfg X childDetElement False axs]
                       else surfaces);
          surfaces2 = collectSensitive cfg X childDetElement surfaces1 axs
      in collectChildren cfg X rest surfaces2 axs)"

section \<open>Bulk material name test\<close>

text \<open>
  \<^verbatim>\<open>boost::iequals(a, b)\<close> compares two strings element by element after
  \<^verbatim>\<open>std::toupper\<close> in the global locale; in the classic locale that maps the letters
  a-z to A-Z and leaves every other character alone.
\<close>

definition toupper :: "char \<Rightarrow> char" where
  "toupper c =
     (let n = (of_char c :: nat)
      in if 97 \<le> n \<and> n \<le> 122 then char_of (n - 32) else c)"

definition iequals :: "string \<Rightarrow> string \<Rightarrow> bool" where
  "iequals a b = (map toupper a = map toupper b)"

section \<open>The negative region pipeline (lines 52-268)\<close>

text \<open>
  Lines 81-125.  \<open>pl\<close> starts as \<^verbatim>\<open>ProtoLayer pl(layerSurfaces)\<close>.  A shape that is
  not a tube segment makes the cast return null; \<^verbatim>\<open>ACTS_ERROR\<close> only logs (there is
  no \<^verbatim>\<open>throw\<close> and no \<^verbatim>\<open>return\<close>), and the next statement calls
  \<^verbatim>\<open>tube->GetRmin()\<close> through the null pointer: that path is \<open>UndefinedBehaviour\<close>.
  A null shape pointer throws \<^verbatim>\<open>std::logic_error\<close>, whose message carries the name of
  the element.
\<close>

text \<open>
  Lines 92-102: the longitudinal extent of the tube along the rotated z axis, with
  \<^verbatim>\<open>if (zMin > zMax) std::swap(zMin, zMax)\<close>.  The result is the pair
  \<open>(zMin, zMax)\<close> after the swap.
\<close>

definition negativeZExtent :: "Externals \<Rightarrow> Transform3D \<Rightarrow> real \<Rightarrow> real \<times> real" where
  "negativeZExtent X transform tubeDz =
     (let zMin = vz (vsub (translation transform)
                  (vscale (vscale (col2 (rotation transform)) tubeDz) (units_cm X)));
          zMax = vz (vadd (translation transform)
                  (vscale (vscale (col2 (rotation transform)) tubeDz) (units_cm X)))
      in if zMin > zMax then (zMax, zMin) else (zMin, zMax))"

definition negativeProtoLayer ::
  "Externals \<Rightarrow> DetElement \<Rightarrow> IActsExtension \<Rightarrow> Surface list \<Rightarrow> Transform3D
     \<Rightarrow> error + ProtoLayer" where
  "negativeProtoLayer X detElement detExtension layerSurfaces transform =
     (let geoShape = GetShape detElement;
          pl = protoLayerOf X layerSurfaces
      in if buildEnvelope detExtension then
           Inr (pl\<lparr> envR := (envelopeR detExtension, envelopeR detExtension),
                    envZ := (envelopeZ detExtension, envelopeZ detExtension) \<rparr>)
         else case geoShape of
           Some shape \<Rightarrow>
             (case shape of
                TGeoOtherShape \<Rightarrow> Inl UndefinedBehaviour
              | TGeoTubeSeg tubeRmin tubeRmax tubeDz \<Rightarrow>
                  (let rMin = tubeRmin * units_cm X;
                       rMax = tubeRmax * units_cm X;
                       (zMin, zMax) = negativeZExtent X transform tubeDz
                   in if layerSurfaces = [] then
                        Inr (pl\<lparr> minR := rMin, maxR := rMax, minZ := zMin, maxZ := zMax,
                                 envR := (0, 0), envZ := (0, 0) \<rparr>)
                      else
                        Inr (pl\<lparr> envZ := (\<bar>zMin - minZ pl\<bar>, \<bar>zMax - maxZ pl\<bar>),
                                 envR := (\<bar>rMin - minR pl\<bar>, \<bar>rMax - maxR pl\<bar>) \<rparr>)))
         | None \<Rightarrow> Inl (LogicError (detName detElement)))"

text \<open>
  Lines 127-208.  The three disc surfaces are built without material; the proxy is then
  set on the one the position selects, and the surfaces are pushed onto \<^verbatim>\<open>aSurfaces\<close>,
  which the approach descriptor takes over.  The result is null (\<open>None\<close>) when no
  support material is requested.
\<close>

definition negativeApproachDescriptor ::
  "IActsExtension \<Rightarrow> ProtoLayer \<Rightarrow> Transform3D \<Rightarrow> Surface list option" where
  "negativeApproachDescriptor detExtension pl transform =
     (if hasSupportMaterial detExtension then
        (let bins1 = fst (materialBins detExtension);
             bins2 = snd (materialBins detExtension);
             materialBinUtil =
               [\<lparr> bins = bins1, bmin = - pi, bmax = pi, option = closed,
                   binvalue = binPhi, btransform = None \<rparr>]
               @ [\<lparr> bins = bins2, bmin = minR pl, bmax = maxR pl, option = open,
                     binvalue = binR, btransform = Some transform \<rparr>];
             materialProxy = Some (SurfaceMaterialProxy materialBinUtil);
             layerPos = layerMaterialPosition detExtension;
             layerThickness = \<bar>minZ pl - maxZ pl\<bar> + fst (envZ pl) + snd (envZ pl);
             innerPos = vsub (translation transform)
                          (vscale (vscale (col2 (rotation transform)) layerThickness) 0.5);
             outerPos = vadd (translation transform)
                          (vscale (vscale (col2 (rotation transform)) layerThickness) 0.5);
             (innerPos, outerPos) =
               (if vz innerPos > vz outerPos then (outerPos, innerPos) else (innerPos, outerPos));
             innerBoundary =
               DiscSurface \<lparr> rotation = rotation transform, translation = innerPos \<rparr>
                 (minR pl) (maxR pl) None;
             outerBoundary =
               DiscSurface \<lparr> rotation = rotation transform, translation = outerPos \<rparr>
                 (minR pl) (maxR pl) None;
             centralSurface = DiscSurface transform (minR pl) (maxR pl) None;
             innerBoundary = (if layerPos = inner
                              then setAssociatedMaterial innerBoundary materialProxy
                              else innerBoundary);
             outerBoundary = (if layerPos = outer
                              then setAssociatedMaterial outerBoundary materialProxy
                              else outerBoundary);
             centralSurface = (if layerPos = central
                               then setAssociatedMaterial centralSurface materialProxy
                               else centralSurface);
             aSurfaces = [] @ [innerBoundary] @ [outerBoundary] @ [centralSurface]
         in Some aSurfaces)
      else None)"

text \<open>Lines 242-258: the bulk material of the layer.\<close>

definition negativeSurfMaterial ::
  "Externals \<Rightarrow> DDMaterial \<Rightarrow> ProtoLayer \<Rightarrow> HomogeneousSurfaceMaterial option" where
  "negativeSurfMaterial X ddmaterial pl =
     (if \<not> iequals (name ddmaterial) ''vacuum'' then
        (let layerMaterial =
               \<lparr> X0 = radLength ddmaterial * units_cm X,
                 L0 = intLength ddmaterial * units_cm X,
                 matA = A ddmaterial,
                 matZ = Z ddmaterial,
                 rho = density ddmaterial / (units_cm X) ^ 3 \<rparr>;
             materialProperties =
               \<lparr> mp_material = layerMaterial, mp_thickness = \<bar>maxR pl - minR pl\<bar> \<rparr>
         in Some (HomogeneousSurfaceMaterial materialProperties))
      else None)"

text \<open>
  Lines 62-263: the body of the loop for one element.  A missing extension makes
  \<^verbatim>\<open>extension<Acts::IActsExtension>()\<close> throw.  A sensitive element becomes a disc
  layer around its own surface (the call \<^verbatim>\<open>createSensitiveSurface(detElement, true)\<close>
  takes the default axes); any other element is handed to the layer creator.  The
  material of the layer's surface representation is set last.
\<close>

definition negativeLayer :: "Config \<Rightarrow> Externals \<Rightarrow> DetElement \<Rightarrow> error + Layer" where
  "negativeLayer cfg X detElement =
     (case extension detElement of
        None \<Rightarrow> Inl RuntimeError
      | Some detExtension \<Rightarrow>
          (let axs = axes detExtension;
               layerSurfaces = collectSensitive cfg X detElement [] axs;
               transform = convertTransform X (worldTransformation detElement)
           in case negativeProtoLayer X detElement detExtension layerSurfaces transform of
                Inl e \<Rightarrow> Inl e
              | Inr pl \<Rightarrow>
                  (let approachDescriptor = negativeApproachDescriptor detExtension pl transform;
                       layer =
                         (if isSensitive detElement then
                            (let sensitiveSurf =
                                   createSensitiveSurface cfg X detElement True (default_axes X);
                                 sArray = [sensitiveSurf];
                                 dBounds = RadialBounds (minR pl) (maxR pl);
                                 thickness = \<bar>maxZ pl - minZ pl\<bar>
                             in \<lparr> l_transform = transform, l_bounds = dBounds,
                                  l_surfaceArray = sArray, l_thickness = thickness,
                                  l_approachDescriptor = approachDescriptor,
                                  l_layerType = active, l_material = None \<rparr>)
                          else cfg_discLayer cfg layerSurfaces (bTypeR cfg) (bTypePhi cfg)
                                 pl transform approachDescriptor);
                       surfMaterial = negativeSurfMaterial X (volMaterial detElement) pl
                   in Inr (layer\<lparr> l_material := surfMaterial \<rparr>))))"

text \<open>The loop over \<^verbatim>\<open>m_cfg.negativeLayers\<close>, pushing each layer onto \<^verbatim>\<open>layers\<close>.\<close>

fun negativeLoop ::
  "Config \<Rightarrow> Externals \<Rightarrow> DetElement list \<Rightarrow> Layer list \<Rightarrow> error + Layer list" where
  "negativeLoop cfg X [] layers = Inr layers"
| "negativeLoop cfg X (detElement # rest) layers =
     (case negativeLayer cfg X detElement of
        Inl e \<Rightarrow> Inl e
      | Inr layer \<Rightarrow> negativeLoop cfg X rest (layers @ [layer]))"

definition negativeLayers :: "Config \<Rightarrow> Externals \<Rightarrow> error + Layer list" where
  "negativeLayers cfg X =
     (if cfg_negativeLayers cfg = [] then Inr []
      else negativeLoop cfg X (cfg_negativeLayers cfg) [])"

section \<open>The central region pipeline (lines 270-472)\<close>

text \<open>
  Lines 299-335.  The longitudinal extent of a cylinder layer is \<open>\<plusminus>dz\<close>; the wrong-shape
  and no-shape branches are those of the negative pipeline.
\<close>

definition centralProtoLayer ::
  "Externals \<Rightarrow> DetElement \<Rightarrow> IActsExtension \<Rightarrow> Surface list \<Rightarrow> Transform3D
     \<Rightarrow> error + ProtoLayer" where
  "centralProtoLayer X detElement detExtension layerSurfaces transform =
     (let geoShape = GetShape detElement;
          pl = protoLayerOf X layerSurfaces
      in if buildEnvelope detExtension then
           Inr (pl\<lparr> envR := (envelopeR detExtension, envelopeR detExtension),
                    envZ := (envelopeZ detExtension, envelopeZ detExtension) \<rparr>)
         else case geoShape of
           Some shape \<Rightarrow>
             (case shape of
                TGeoOtherShape \<Rightarrow> Inl UndefinedBehaviour
              | TGeoTubeSeg tubeRmin tubeRmax tubeDz \<Rightarrow>
                  (let rMin = tubeRmin * units_cm X;
                       rMax = tubeRmax * units_cm X;
                       dz = tubeDz * units_cm X
                   in if layerSurfaces = [] then
                        Inr (pl\<lparr> minR := rMin, maxR := rMax, minZ := - dz, maxZ := dz,
                                 envR := (0, 0), envZ := (0, 0) \<rparr>)
                      else
                        Inr (pl\<lparr> envZ := (\<bar>- dz - minZ pl\<bar>, \<bar>dz - maxZ pl\<bar>),
                                 envR := (\<bar>rMin - minR pl\<bar>, \<bar>rMax - maxR pl\<bar>) \<rparr>)))
         | None \<Rightarrow> Inl (LogicError (detName detElement)))"

text \<open>Line 337.\<close>

definition centralHalfZ :: "ProtoLayer \<Rightarrow> real" where
  "centralHalfZ pl = (minZ pl - maxZ pl) * 0.5"

text \<open>
  Lines 339-409.  Three cylinder surfaces of radius \<open>minR\<close>, \<open>maxR\<close> and their mean,
  pushed in the order inner, central, outer.
\<close>

definition centralApproachDescriptor ::
  "IActsExtension \<Rightarrow> ProtoLayer \<Rightarrow> Transform3D \<Rightarrow> real \<Rightarrow> Surface list option" where
  "centralApproachDescriptor detExtension pl transform halfZ =
     (if hasSupportMaterial detExtension then
        (let innerBoundary = CylinderSurface transform (minR pl) halfZ None;
             outerBoundary = CylinderSurface transform (maxR pl) halfZ None;
             centralSurface = CylinderSurface transform ((minR pl + maxR pl) * 0.5) halfZ None;
             bins1 = fst (materialBins detExtension);
             bins2 = snd (materialBins detExtension);
             materialBinUtil =
               [\<lparr> bins = bins1, bmin = - pi, bmax = pi, option = closed,
                   binvalue = binPhi, btransform = None \<rparr>]
               @ [\<lparr> bins = bins2, bmin = - halfZ, bmax = halfZ, option = open,
                     binvalue = binZ, btransform = Some transform \<rparr>];
             materialProxy = Some (SurfaceMaterialProxy materialBinUtil);
             layerPos = layerMaterialPosition detExtension;
             innerBoundary = (if layerPos = inner
                              then setAssociatedMaterial innerBoundary materialProxy
                              else innerBoundary);
             outerBoundary = (if layerPos = outer
                              then setAssociatedMaterial outerBoundary materialProxy
                              else outerBoundary);
             centralSurface = (if layerPos = central
                               then setAssociatedMaterial centralSurface materialProxy
                               else centralSurface);
             aSurfaces = [] @ [innerBoundary] @ [centralSurface] @ [outerBoundary]
         in Some aSurfaces)
      else None)"

text \<open>Lines 445-463.\<close>

definition centralSurfMaterial ::
  "Externals \<Rightarrow> DDMaterial \<Rightarrow> ProtoLayer \<Rightarrow> HomogeneousSurfaceMaterial option" where
  "centralSurfMaterial X ddmaterial pl =
     (if \<not> iequals (name ddmaterial) ''vacuum'' then
        (let layerMaterial =
               \<lparr> X0 = radLength ddmaterial * units_cm X,
                 L0 = intLength ddmaterial * units_cm X,
                 matA = A ddmaterial,
                 matZ = Z ddmaterial,
                 rho = density ddmaterial / (units_cm X) ^ 3 \<rparr>;
             materialProperties =
               \<lparr> mp_material = layerMaterial, mp_thickness = \<bar>maxR pl - minR pl\<bar> \<rparr>
         in Some (HomogeneousSurfaceMaterial materialProperties))
      else None)"

text \<open>
  Lines 280-468.  The call \<^verbatim>\<open>createSensitiveSurface(detElement)\<close> takes both default
  arguments.
\<close>

definition centralLayer :: "Config \<Rightarrow> Externals \<Rightarrow> DetElement \<Rightarrow> error + Layer" where
  "centralLayer cfg X detElement =
     (case extension detElement of
        None \<Rightarrow> Inl RuntimeError
      | Some detExtension \<Rightarrow>
          (let axs = axes detExtension;
               layerSurfaces = collectSensitive cfg X detElement [] axs;
               transform = convertTransform X (worldTransformation detElement)
           in case centralProtoLayer X detElement detExtension layerSurfaces transform of
                Inl e \<Rightarrow> Inl e
              | Inr pl \<Rightarrow>
                  (let halfZ = centralHalfZ pl;
                       approachDescriptor =
                         centralApproachDescriptor detExtension pl transform halfZ;
                       layer =
                         (if isSensitive detElement then
                            (let sensitiveSurf =
                                   createSensitiveSurface cfg X detElement
                                     (default_isDisc X) (default_axes X);
                                 sArray = [sensitiveSurf];
                                 layerR = (minR pl + maxR pl) * 0.5;
                                 thickness = \<bar>maxR pl - minR pl\<bar>;
                                 cBounds = CylinderBounds layerR halfZ
                             in \<lparr> l_transform = transform, l_bounds = cBounds,
                                  l_surfaceArray = sArray, l_thickness = thickness,
                                  l_approachDescriptor = approachDescriptor,
                                  l_layerType = active, l_material = None \<rparr>)
                          else cfg_cylinderLayer cfg layerSurfaces (bTypePhi cfg) (bTypeZ cfg)
                                 pl transform approachDescriptor);
                       surfMaterial = centralSurfMaterial X (volMaterial detElement) pl
                   in Inr (layer\<lparr> l_material := surfMaterial \<rparr>))))"

fun centralLoop ::
  "Config \<Rightarrow> Externals \<Rightarrow> DetElement list \<Rightarrow> Layer list \<Rightarrow> error + Layer list" where
  "centralLoop cfg X [] layers = Inr layers"
| "centralLoop cfg X (detElement # rest) layers =
     (case centralLayer cfg X detElement of
        Inl e \<Rightarrow> Inl e
      | Inr layer \<Rightarrow> centralLoop cfg X rest (layers @ [layer]))"

definition centralLayers :: "Config \<Rightarrow> Externals \<Rightarrow> error + Layer list" where
  "centralLayers cfg X =
     (if cfg_centralLayers cfg = [] then Inr []
      else centralLoop cfg X (cfg_centralLayers cfg) [])"

section \<open>The positive region pipeline (lines 474-687)\<close>

text \<open>Lines 503-546.\<close>

text \<open>
  Lines 514-524: the longitudinal extent of the tube along the rotated z axis, with
  \<^verbatim>\<open>if (zMin > zMax) std::swap(zMin, zMax)\<close>.  The result is the pair
  \<open>(zMin, zMax)\<close> after the swap.
\<close>

definition positiveZExtent :: "Externals \<Rightarrow> Transform3D \<Rightarrow> real \<Rightarrow> real \<times> real" where
  "positiveZExtent X transform tubeDz =
     (let zMin = vz (vsub (translation transform)
                  (vscale (vscale (col2 (rotation transform)) tubeDz) (units_cm X)));
          zMax = vz (vadd (translation transform)
                  (vscale (vscale (col2 (rotation transform)) tubeDz) (units_cm X)))
      in if zMin > zMax then (zMax, zMin) else (zMin, zMax))"

definition positiveProtoLayer ::
  "Externals \<Rightarrow> DetElement \<Rightarrow> IActsExtension \<Rightarrow> Surface list \<Rightarrow> Transform3D
     \<Rightarrow> error + ProtoLayer" where
  "positiveProtoLayer X detElement detExtension layerSurfaces transform =
     (let geoShape = GetShape detElement;
          pl = protoLayerOf X layerSurfaces
      in if buildEnvelope detExtension then
           Inr (pl\<lparr> envR := (envelopeR detExtension, envelopeR detExtension),
                    envZ := (envelopeZ detExtension, envelopeZ detExtension) \<rparr>)
         else case geoShape of
           Some shape \<Rightarrow>
             (case shape of
                TGeoOtherShape \<Rightarrow> Inl UndefinedBehaviour
              | TGeoTubeSeg tubeRmin tubeRmax tubeDz \<Rightarrow>
                  (let rMin = tubeRmin * units_cm X;
                       rMax = tubeRmax * units_cm X;
                       (zMin, zMax) = positiveZExtent X transform tubeDz
                   in if layerSurfaces = [] then
                        Inr (pl\<lparr> minR := rMin, maxR := rMax, minZ := zMin, maxZ := zMax,
                                 envR := (0, 0), envZ := (0, 0) \<rparr>)
                      else
                        Inr (pl\<lparr> envZ := (\<bar>zMin - minZ pl\<bar>, \<bar>zMax - maxZ pl\<bar>),
                                 envR := (\<bar>rMin - minR pl\<bar>, \<bar>rMax - maxR pl\<bar>) \<rparr>)))
         | None \<Rightarrow> Inl (LogicError (detName detElement)))"

text \<open>Lines 548-628.  The surfaces are pushed in the order inner, central, outer.\<close>

definition positiveApproachDescriptor ::
  "IActsExtension \<Rightarrow> ProtoLayer \<Rightarrow> Transform3D \<Rightarrow> Surface list option" where
  "positiveApproachDescriptor detExtension pl transform =
     (if hasSupportMaterial detExtension then
        (let bins1 = fst (materialBins detExtension);
             bins2 = snd (materialBins detExtension);
             materialBinUtil =
               [\<lparr> bins = bins1, bmin = - pi, bmax = pi, option = closed,
                   binvalue = binPhi, btransform = None \<rparr>]
               @ [\<lparr> bins = bins2, bmin = minR pl, bmax = maxR pl, option = open,
                     binvalue = binR, btransform = Some transform \<rparr>];
             materialProxy = Some (SurfaceMaterialProxy materialBinUtil);
             layerPos = layerMaterialPosition detExtension;
             layerThickness = \<bar>minZ pl - maxZ pl\<bar> + fst (envZ pl) + snd (envZ pl);
             innerPos = vsub (translation transform)
                          (vscale (vscale (col2 (rotation transform)) layerThickness) 0.5);
             outerPos = vadd (translation transform)
                          (vscale (vscale (col2 (rotation transform)) layerThickness) 0.5);
             (innerPos, outerPos) =
               (if vz innerPos > vz outerPos then (outerPos, innerPos) else (innerPos, outerPos));
             innerBoundary =
               DiscSurface \<lparr> rotation = rotation transform, translation = innerPos \<rparr>
                 (minR pl) (maxR pl) None;
             outerBoundary =
               DiscSurface \<lparr> rotation = rotation transform, translation = outerPos \<rparr>
                 (minR pl) (maxR pl) None;
             centralSurface = DiscSurface transform (minR pl) (maxR pl) None;
             innerBoundary = (if layerPos = inner
                              then setAssociatedMaterial innerBoundary materialProxy
                              else innerBoundary);
             outerBoundary = (if layerPos = outer
                              then setAssociatedMaterial outerBoundary materialProxy
                              else outerBoundary);
             centralSurface = (if layerPos = central
                               then setAssociatedMaterial centralSurface materialProxy
                               else centralSurface);
             aSurfaces = [] @ [innerBoundary] @ [centralSurface] @ [outerBoundary]
         in Some aSurfaces)
      else None)"

text \<open>Lines 662-678.\<close>

definition positiveSurfMaterial ::
  "Externals \<Rightarrow> DDMaterial \<Rightarrow> ProtoLayer \<Rightarrow> HomogeneousSurfaceMaterial option" where
  "positiveSurfMaterial X ddmaterial pl =
     (if \<not> iequals (name ddmaterial) ''vacuum'' then
        (let layerMaterial =
               \<lparr> X0 = radLength ddmaterial * units_cm X,
                 L0 = intLength ddmaterial * units_cm X,
                 matA = A ddmaterial,
                 matZ = Z ddmaterial,
                 rho = density ddmaterial / (units_cm X) ^ 3 \<rparr>;
             materialProperties =
               \<lparr> mp_material = layerMaterial, mp_thickness = \<bar>maxR pl - minR pl\<bar> \<rparr>
         in Some (HomogeneousSurfaceMaterial materialProperties))
      else None)"

text \<open>Lines 484-683.\<close>

definition positiveLayer :: "Config \<Rightarrow> Externals \<Rightarrow> DetElement \<Rightarrow> error + Layer" where
  "positiveLayer cfg X detElement =
     (case extension detElement of
        None \<Rightarrow> Inl RuntimeError
      | Some detExtension \<Rightarrow>
          (let axs = axes detExtension;
               layerSurfaces = collectSensitive cfg X detElement [] axs;
               transform = convertTransform X (worldTransformation detElement)
           in case positiveProtoLayer X detElement detExtension layerSurfaces transform of
                Inl e \<Rightarrow> Inl e
              | Inr pl \<Rightarrow>
                  (let approachDescriptor = positiveApproachDescriptor detExtension pl transform;
                       layer =
                         (if isSensitive detElement then
                            (let sensitiveSurf =
                                   createSensitiveSurface cfg X detElement True (default_axes X);
                                 sArray = [sensitiveSurf];
                                 dBounds = RadialBounds (minR pl) (maxR pl);
                                 thickness = \<bar>maxZ pl - minZ pl\<bar>
                             in \<lparr> l_transform = transform, l_bounds = dBounds,
                                  l_surfaceArray = sArray, l_thickness = thickness,
                                  l_approachDescriptor = approachDescriptor,
                                  l_layerType = active, l_material = None \<rparr>)
                          else cfg_discLayer cfg layerSurfaces (bTypeR cfg) (bTypePhi cfg)
                                 pl transform approachDescriptor);
                       surfMaterial = positiveSurfMaterial X (volMaterial detElement) pl
                   in Inr (layer\<lparr> l_material := surfMaterial \<rparr>))))"

fun positiveLoop ::
  "Config \<Rightarrow> Externals \<Rightarrow> DetElement list \<Rightarrow> Layer list \<Rightarrow> error + Layer list" where
  "positiveLoop cfg X [] layers = Inr layers"
| "positiveLoop cfg X (detElement # rest) layers =
     (case positiveLayer cfg X detElement of
        Inl e \<Rightarrow> Inl e
      | Inr layer \<Rightarrow> positiveLoop cfg X rest (layers @ [layer]))"

definition positiveLayers :: "Config \<Rightarrow> Externals \<Rightarrow> error + Layer list" where
  "positiveLayers cfg X =
     (if cfg_positiveLayers cfg = [] then Inr []
      else positiveLoop cfg X (cfg_positiveLayers cfg) [])"

section \<open>Reference notions and example inputs\<close>

text \<open>
  The proper descendants of an element, depth first and in the order of its children:
  the nodes the specification of the collector speaks about.
\<close>

fun descendants :: "DetElement \<Rightarrow> DetElement list"
  and childDescendants :: "(string \<times> DetElement) list \<Rightarrow> DetElement list" where
  "descendants (DetElement n e t s b m cs) = childDescendants cs"
| "childDescendants [] = []"
| "childDescendants (child # rest) =
     snd child # descendants (snd child) @ childDescendants rest"

text \<open>
  The order of the three approach surfaces of the positive pipeline, turned into that of
  the negative one.
\<close>

fun innerOuterCentral :: "Surface list \<Rightarrow> Surface list" where
  "innerOuterCentral [sI, sC, sO] = [sI, sO, sC]"
| "innerOuterCentral ss = ss"

text \<open>
  The three approach surfaces of a disc layer, named by where they sit.  The two boundary
  positions are the centre of the layer moved by half the padded thickness against and
  along the rotated z axis, the lower one along z being the inner one; the proxy is
  binned in \<open>\<phi>\<close> over the full circle and in \<open>r\<close> between \<open>minR\<close> and \<open>maxR\<close>.
\<close>

definition discBoundaryPositions :: "ProtoLayer \<Rightarrow> Transform3D \<Rightarrow> Vector3D \<times> Vector3D" where
  "discBoundaryPositions pl t =
     (let thickness = \<bar>minZ pl - maxZ pl\<bar> + fst (envZ pl) + snd (envZ pl);
          shift = vscale (vscale (col2 (rotation t)) thickness) 0.5;
          below = vsub (translation t) shift;
          above = vadd (translation t) shift
      in if vz below > vz above then (above, below) else (below, above))"

definition discProxy :: "IActsExtension \<Rightarrow> ProtoLayer \<Rightarrow> Transform3D \<Rightarrow> SurfaceMaterialProxy" where
  "discProxy e pl t =
     SurfaceMaterialProxy
       [\<lparr> bins = fst (materialBins e), bmin = - pi, bmax = pi, option = closed,
           binvalue = binPhi, btransform = None \<rparr>,
        \<lparr> bins = snd (materialBins e), bmin = minR pl, bmax = maxR pl, option = open,
           binvalue = binR, btransform = Some t \<rparr>]"

definition proxyAt ::
  "IActsExtension \<Rightarrow> LayerMaterialPos \<Rightarrow> SurfaceMaterialProxy \<Rightarrow> SurfaceMaterialProxy option" where
  "proxyAt e pos p = (if layerMaterialPosition e = pos then Some p else None)"

definition discInnerBoundary :: "IActsExtension \<Rightarrow> ProtoLayer \<Rightarrow> Transform3D \<Rightarrow> Surface" where
  "discInnerBoundary e pl t =
     DiscSurface \<lparr> rotation = rotation t, translation = fst (discBoundaryPositions pl t) \<rparr>
       (minR pl) (maxR pl) (proxyAt e inner (discProxy e pl t))"

definition discOuterBoundary :: "IActsExtension \<Rightarrow> ProtoLayer \<Rightarrow> Transform3D \<Rightarrow> Surface" where
  "discOuterBoundary e pl t =
     DiscSurface \<lparr> rotation = rotation t, translation = snd (discBoundaryPositions pl t) \<rparr>
       (minR pl) (maxR pl) (proxyAt e outer (discProxy e pl t))"

definition discCentralSurface :: "IActsExtension \<Rightarrow> ProtoLayer \<Rightarrow> Transform3D \<Rightarrow> Surface" where
  "discCentralSurface e pl t =
     DiscSurface t (minR pl) (maxR pl) (proxyAt e central (discProxy e pl t))"

text \<open>A boundary surface that carries a material proxy.\<close>

definition carriesProxy :: "Surface \<Rightarrow> bool" where
  "carriesProxy s = (associatedMaterial s \<noteq> None)"

text \<open>Example inputs: a length unit of 10, an unrotated placement, a few elements.\<close>

definition exampleProto :: ProtoLayer where
  "exampleProto = \<lparr> minR = 30, maxR = 40, minZ = -5, maxZ = 5, envR = (0, 0), envZ = (0, 0) \<rparr>"

definition exampleX :: Externals where
  "exampleX = \<lparr> units_cm = 10, protoLayerOf = (\<lambda>surfaces. exampleProto),
                default_isDisc = False, default_axes = ''XYZ'' \<rparr>"

definition exampleMatrix :: TGeoMatrix where
  "exampleMatrix =
     \<lparr> GetRotationMatrix = (\<lambda>i. if i = 0 \<or> i = 4 \<or> i = 8 then 1 else 0),
       GetTranslation = (\<lambda>i. 0) \<rparr>"


definition exampleExtension :: IActsExtension where
  "exampleExtension =
     \<lparr> axes = ''XYZ'', buildEnvelope = False, envelopeR = 1, envelopeZ = 2,
       hasSupportMaterial = True, materialBins = (2, 3), layerMaterialPosition = central,
       material = None, digitizationModule = None \<rparr>"


definition silicon :: DDMaterial where
  "silicon = \<lparr> name = ''Silicon'', radLength = 9, intLength = 46, A = 28, Z = 14,
               density = 2 \<rparr>"

definition exampleElement :: "TGeoShape option \<Rightarrow> IActsExtension \<Rightarrow> DetElement" where
  "exampleElement shape ext =
     DetElement ''layer'' (Some ext) exampleMatrix shape True silicon []"

definition moduleElement :: "bool \<Rightarrow> DetElement" where
  "moduleElement sens =
     DetElement ''module'' None exampleMatrix None sens silicon []"

definition exampleParent :: DetElement where
  "exampleParent =
     DetElement ''layer'' (Some exampleExtension) exampleMatrix (Some (TGeoTubeSeg 1 2 5))
       False silicon [(''m0'', moduleElement True)]"

definition exampleLayerCreator ::
  "Surface list \<Rightarrow> BinningType \<Rightarrow> BinningType \<Rightarrow> ProtoLayer \<Rightarrow> Transform3D
     \<Rightarrow> Surface list option \<Rightarrow> Layer" where
  "exampleLayerCreator surfaces b1 b2 pl transform ad =
     \<lparr> l_transform = transform, l_bounds = RadialBounds (minR pl) (maxR pl),
       l_surfaceArray = surfaces, l_thickness = \<bar>maxZ pl - minZ pl\<bar>,
       l_approachDescriptor = ad, l_layerType = passive, l_material = None \<rparr>"

definition exampleConfig :: "DetElement list \<Rightarrow> Config" where
  "exampleConfig nodes =
     \<lparr> cfg_negativeLayers = nodes, cfg_centralLayers = nodes, cfg_positiveLayers = nodes,
       cfg_discLayer = exampleLayerCreator, cfg_cylinderLayer = exampleLayerCreator,
       bTypeR = equidistant, bTypePhi = equidistant, bTypeZ = equidistant,
       buildDigitizationModules = False \<rparr>"

section \<open>Properties of any\_of\<close>

lemma any_of_mem: "any_of xs = (True \<in> set xs)"
  by (induction xs rule: any_of.induct) auto

text \<open>
  Claim C10.  For every finite list of booleans the compile-time predicate
  \<open>any_of_v\<close> is true exactly when at least one element of the list is true; on
  the empty list it is false.
\<close>

theorem any_of_v_iff_some_true:
  "any_of_v xs = (True \<in> set xs) \<and> any_of_v [] = False"
  by (simp add: any_of_v_def any_of_mem)

section \<open>The recursive collector\<close>

lemma collect_acc:
  "collectSensitive cfg X d acc axs =
     acc @ map (\<lambda>c. createSensitiveSurface cfg X c False axs) (filter isSensitive (descendants d))"
  "collectChildren cfg X cs acc axs =
     acc @ map (\<lambda>c. createSensitiveSurface cfg X c False axs)
             (filter isSensitive (childDescendants cs))"
  by (induction cfg X d acc axs and cfg X cs acc axs rule: collectSensitive_collectChildren.induct)
     (simp_all add: Let_def)

text \<open>
  Claim C8.  Started on an empty vector, the collector returns one surface for each
  sensitive proper descendant of the element, in depth-first order and in the order of
  the children; so a tree with N sensitive descendants yields exactly N surfaces,
  whatever the number of other nodes.  The children of a sensitive node are visited like
  any others (they are among the descendants), and an element without children leaves the
  vector as it was.
\<close>

theorem collector_returns_sensitive_descendants:
  "collectSensitive cfg X d [] axs =
     map (\<lambda>c. createSensitiveSurface cfg X c False axs) (filter isSensitive (descendants d))
   \<and> length (collectSensitive cfg X d [] axs) = length (filter isSensitive (descendants d))
   \<and> collectSensitive cfg X (DetElement n e t s b m []) surfaces axs = surfaces"
  by (simp add: collect_acc)

section \<open>Longitudinal extent of a disc layer\<close>



lemma example_transform:
  "convertTransform exampleX exampleMatrix =
     \<lparr> rotation = \<lparr> col0 = Vector3D 1 0 0, col1 = Vector3D 0 1 0, col2 = Vector3D 0 0 1 \<rparr>,
       translation = Vector3D 0 0 0 \<rparr>"
  by (simp add: convertTransform_def exampleMatrix_def exampleX_def Let_def)


section \<open>Approach surfaces\<close>

lemma negative_approach_surfaces:
  "hasSupportMaterial e \<Longrightarrow>
   \<exists>tI tO p. negativeApproachDescriptor e pl t =
       Some [DiscSurface tI (minR pl) (maxR pl)
               (if layerMaterialPosition e = inner then Some p else None),
             DiscSurface tO (minR pl) (maxR pl)
               (if layerMaterialPosition e = outer then Some p else None),
             DiscSurface t (minR pl) (maxR pl)
               (if layerMaterialPosition e = central then Some p else None)]
     \<and> vz (translation tI) \<le> vz (translation tO)"
  by (cases "layerMaterialPosition e")
     (simp_all add: negativeApproachDescriptor_def Let_def split: prod.splits)

lemma positive_approach_surfaces:
  "hasSupportMaterial e \<Longrightarrow>
   \<exists>tI tO p. positiveApproachDescriptor e pl t =
       Some [DiscSurface tI (minR pl) (maxR pl)
               (if layerMaterialPosition e = inner then Some p else None),
             DiscSurface t (minR pl) (maxR pl)
               (if layerMaterialPosition e = central then Some p else None),
             DiscSurface tO (minR pl) (maxR pl)
               (if layerMaterialPosition e = outer then Some p else None)]
     \<and> vz (translation tI) \<le> vz (translation tO)"
  by (cases "layerMaterialPosition e")
     (simp_all add: positiveApproachDescriptor_def Let_def split: prod.splits)

lemma central_approach_surfaces:
  "hasSupportMaterial e \<Longrightarrow>
   \<exists>p. centralApproachDescriptor e pl t h =
       Some [CylinderSurface t (minR pl) h
               (if layerMaterialPosition e = inner then Some p else None),
             CylinderSurface t ((minR pl + maxR pl) / 2) h
               (if layerMaterialPosition e = central then Some p else None),
             CylinderSurface t (maxR pl) h
               (if layerMaterialPosition e = outer then Some p else None)]"
  by (cases "layerMaterialPosition e")
     (simp_all add: centralApproachDescriptor_def Let_def)

lemma one_proxy_disc:
  "length (filter carriesProxy
     [DiscSurface t1 a b (if q = inner then Some p else None),
      DiscSurface t2 a b (if q = outer then Some p else None),
      DiscSurface t3 a b (if q = central then Some p else None)]) = 1"
  by (cases q) (simp_all add: carriesProxy_def)

lemma one_proxy_cylinder:
  "length (filter carriesProxy
     [CylinderSurface t1 r1 h (if q = inner then Some p else None),
      CylinderSurface t2 r2 h (if q = central then Some p else None),
      CylinderSurface t3 r3 h (if q = outer then Some p else None)]) = 1"
  by (cases q) (simp_all add: carriesProxy_def)

lemma one_proxy_disc':
  "length (filter carriesProxy
     [DiscSurface t1 a b (if q = inner then Some p else None),
      DiscSurface t2 a b (if q = central then Some p else None),
      DiscSurface t3 a b (if q = outer then Some p else None)]) = 1"
  by (cases q) (simp_all add: carriesProxy_def)

section \<open>Half-length of a cylinder layer\<close>

text \<open>
  Claim C4.  The half-length of the central pipeline is \<open>(minZ - maxZ) * 0.5\<close>, the
  negative of \<open>(maxZ - minZ) * 0.5\<close>.  With support material the three boundary
  surfaces are cylinders about the same transform of radius \<open>minR\<close>, \<open>maxR\<close> and
  \<open>(minR + maxR) / 2\<close>, all of this half-length; a sensitive element gets cylinder
  bounds of the mean radius and the same half-length, and these surfaces as its approach
  descriptor.
\<close>

theorem central_half_length_and_cylinders:
  "centralHalfZ pl = (minZ pl - maxZ pl) * 0.5
   \<and> centralHalfZ pl = - ((maxZ pl - minZ pl) * 0.5)
   \<and> (hasSupportMaterial e \<longrightarrow>
        (\<exists>mI mC mO. centralApproachDescriptor e pl t (centralHalfZ pl) =
           Some [CylinderSurface t (minR pl) (centralHalfZ pl) mI,
                 CylinderSurface t ((minR pl + maxR pl) / 2) (centralHalfZ pl) mC,
                 CylinderSurface t (maxR pl) (centralHalfZ pl) mO]))
   \<and> (extension d = Some e \<and> isSensitive d
        \<and> centralProtoLayer X d e (collectSensitive cfg X d [] (axes e))
              (convertTransform X (worldTransformation d)) = Inr pl \<longrightarrow>
        (\<exists>layer. centralLayer cfg X d = Inr layer
           \<and> l_bounds layer = CylinderBounds ((minR pl + maxR pl) / 2) (centralHalfZ pl)
           \<and> l_approachDescriptor layer =
               centralApproachDescriptor e pl (convertTransform X (worldTransformation d))
                 (centralHalfZ pl)))"
proof (intro conjI impI)
  show "centralHalfZ pl = (minZ pl - maxZ pl) * 0.5"
    by (simp add: centralHalfZ_def)
  show "centralHalfZ pl = - ((maxZ pl - minZ pl) * 0.5)"
    by (simp add: centralHalfZ_def field_simps)
next
  assume "hasSupportMaterial e"
  from central_approach_surfaces [OF this, of pl t "centralHalfZ pl"]
  show "\<exists>mI mC mO. centralApproachDescriptor e pl t (centralHalfZ pl) =
           Some [CylinderSurface t (minR pl) (centralHalfZ pl) mI,
                 CylinderSurface t ((minR pl + maxR pl) / 2) (centralHalfZ pl) mC,
                 CylinderSurface t (maxR pl) (centralHalfZ pl) mO]"
    by blast
next
  assume "extension d = Some e \<and> isSensitive d
        \<and> centralProtoLayer X d e (collectSensitive cfg X d [] (axes e))
              (convertTransform X (worldTransformation d)) = Inr pl"
  then show "\<exists>layer. centralLayer cfg X d = Inr layer
           \<and> l_bounds layer = CylinderBounds ((minR pl + maxR pl) / 2) (centralHalfZ pl)
           \<and> l_approachDescriptor layer =
               centralApproachDescriptor e pl (convertTransform X (worldTransformation d))
                 (centralHalfZ pl)"
    by (simp add: centralLayer_def Let_def)
qed

theorem central_half_length_and_cylinders_witness:
  "hasSupportMaterial exampleExtension
   \<and> (\<exists>mI mC mO. centralApproachDescriptor exampleExtension exampleProto
          (convertTransform exampleX exampleMatrix) (centralHalfZ exampleProto) =
           Some [CylinderSurface (convertTransform exampleX exampleMatrix) 30 (- 5) mI,
                 CylinderSurface (convertTransform exampleX exampleMatrix) 35 (- 5) mC,
                 CylinderSurface (convertTransform exampleX exampleMatrix) 40 (- 5) mO])
   \<and> (\<exists>layer. centralLayer (exampleConfig [])
          exampleX (exampleElement (Some (TGeoTubeSeg 1 2 5)) exampleExtension) = Inr layer
        \<and> l_bounds layer = CylinderBounds 15 (- 50))"
proof -
  let ?d = "exampleElement (Some (TGeoTubeSeg 1 2 5)) exampleExtension"
  let ?pl = "exampleProto \<lparr> minR := 10, maxR := 20, minZ := - 50, maxZ := 50,
                envR := (0, 0), envZ := (0, 0) \<rparr>"
  have h: "hasSupportMaterial exampleExtension"
    by (simp add: exampleExtension_def)
  have z: "centralHalfZ exampleProto = - 5" "minR exampleProto = 30" "maxR exampleProto = 40"
    by (simp_all add: centralHalfZ_def exampleProto_def)
  have z': "centralHalfZ ?pl = - 50"
    by (simp add: centralHalfZ_def)
  have c: "collectSensitive (exampleConfig []) exampleX ?d [] (axes exampleExtension) = []"
    by (simp add: exampleElement_def)
  have p: "extension ?d = Some exampleExtension \<and> isSensitive ?d
     \<and> centralProtoLayer exampleX ?d exampleExtension
          (collectSensitive (exampleConfig []) exampleX ?d [] (axes exampleExtension))
          (convertTransform exampleX (worldTransformation ?d)) = Inr ?pl"
    unfolding c
    by (simp add: exampleElement_def centralProtoLayer_def exampleExtension_def exampleX_def)
  have a: "\<exists>mI mC mO. centralApproachDescriptor exampleExtension exampleProto
          (convertTransform exampleX exampleMatrix) (centralHalfZ exampleProto) =
           Some [CylinderSurface (convertTransform exampleX exampleMatrix) 30 (- 5) mI,
                 CylinderSurface (convertTransform exampleX exampleMatrix) 35 (- 5) mC,
                 CylinderSurface (convertTransform exampleX exampleMatrix) 40 (- 5) mO]"
    using h central_half_length_and_cylinders [of exampleProto exampleExtension
        "convertTransform exampleX exampleMatrix"]
    by (simp add: z)
  have b: "\<exists>layer. centralLayer (exampleConfig []) exampleX ?d = Inr layer
        \<and> l_bounds layer = CylinderBounds 15 (- 50)"
    using p central_half_length_and_cylinders [of ?pl exampleExtension
        "convertTransform exampleX exampleMatrix" ?d exampleX "exampleConfig []"]
    by (auto simp: z')
  from h a b show ?thesis by blast
qed

section \<open>Explicit envelopes\<close>




section \<open>Extent taken from the shape\<close>



section \<open>The two disc pipelines\<close>

lemma createSensitiveSurface_discLayer_update:
  "createSensitiveSurface (cfg \<lparr> cfg_discLayer := f \<rparr>) X d b axs =
     createSensitiveSurface cfg X d b axs"
  by (simp add: createSensitiveSurface_def)

lemma collectSensitive_discLayer_update:
  "collectSensitive (cfg \<lparr> cfg_discLayer := f \<rparr>) X d acc axs =
     collectSensitive cfg X d acc axs"
  by (simp add: collect_acc createSensitiveSurface_discLayer_update)

lemma disc_z_extents_agree:
  "negativeZExtent X t dz = positiveZExtent X t dz"
  by (simp add: negativeZExtent_def positiveZExtent_def)

lemma disc_proto_layers_agree:
  "negativeProtoLayer X d e s t = positiveProtoLayer X d e s t"
  unfolding negativeProtoLayer_def positiveProtoLayer_def disc_z_extents_agree
  by (rule refl)

lemma disc_materials_agree:
  "negativeSurfMaterial X m pl = positiveSurfMaterial X m pl"
  by (simp add: negativeSurfMaterial_def positiveSurfMaterial_def)

lemma disc_descriptors_reordered:
  "negativeApproachDescriptor e pl t =
     map_option innerOuterCentral (positiveApproachDescriptor e pl t)"
  by (simp add: negativeApproachDescriptor_def positiveApproachDescriptor_def Let_def
      split: prod.splits)

lemma disc_descriptor_orders:
  "hasSupportMaterial e \<Longrightarrow>
     \<exists>sI sC sO. negativeApproachDescriptor e pl t = Some [sI, sO, sC]
        \<and> positiveApproachDescriptor e pl t = Some [sI, sC, sO]"
  by (simp add: negativeApproachDescriptor_def positiveApproachDescriptor_def Let_def
      split: prod.splits)

section \<open>Bulk material\<close>

lemma silicon_is_not_vacuum: "iequals ''Silicon'' ''vacuum'' = False"
  by code_simp

lemma vacuum_any_casing: "iequals ''Vacuum'' ''vacuum''" "iequals ''VACUUM'' ''vacuum''"
  by code_simp+

lemma bulk_material_vacuum:
  "iequals (name m) ''vacuum'' \<Longrightarrow>
     negativeSurfMaterial X m pl = None \<and> centralSurfMaterial X m pl = None
     \<and> positiveSurfMaterial X m pl = None"
  by (simp add: negativeSurfMaterial_def centralSurfMaterial_def positiveSurfMaterial_def)

lemma bulk_material_radial_span:
  "\<not> iequals (name m) ''vacuum'' \<Longrightarrow>
     map_option materialThickness (negativeSurfMaterial X m pl) = Some \<bar>maxR pl - minR pl\<bar>
     \<and> map_option materialThickness (centralSurfMaterial X m pl) = Some \<bar>maxR pl - minR pl\<bar>
     \<and> map_option materialThickness (positiveSurfMaterial X m pl) = Some \<bar>maxR pl - minR pl\<bar>"
  by (simp add: negativeSurfMaterial_def centralSurfMaterial_def positiveSurfMaterial_def)

text \<open>
  Claim C2.  The material is null for a name equal to "vacuum" in any casing, and
  otherwise a homogeneous material whose thickness is the radial span
  \<open>|maxR - minR|\<close>, in all three pipelines (the two lemmas above).  For a disc layer
  that is not the longitudinal span the claim names: a sensitive silicon disc with radii
  10 and 100 and half-length 1, in a length unit of 10, becomes in both disc pipelines a
  layer with radial bounds 100 to 1000 and thickness 20 whose material has thickness 900.
\<close>

theorem disc_material_thickness_is_radial_span:
  "map_sum id (\<lambda>layer. (l_bounds layer, l_thickness layer,
        map_option materialThickness (l_material layer)))
     (negativeLayer (exampleConfig []) exampleX
        (exampleElement (Some (TGeoTubeSeg 10 100 1)) exampleExtension))
     = Inr (RadialBounds 100 1000, 20, Some 900)
   \<and> map_sum id (\<lambda>layer. (l_bounds layer, l_thickness layer,
        map_option materialThickness (l_material layer)))
     (positiveLayer (exampleConfig []) exampleX
        (exampleElement (Some (TGeoTubeSeg 10 100 1)) exampleExtension))
     = Inr (RadialBounds 100 1000, 20, Some 900)"
proof -
  let ?d = "exampleElement (Some (TGeoTubeSeg 10 100 1)) exampleExtension"
  let ?t = "convertTransform exampleX exampleMatrix"
  let ?pl = "exampleProto \<lparr> minR := 100, maxR := 1000, minZ := - 10, maxZ := 10,
                envR := (0, 0), envZ := (0, 0) \<rparr>"
  have u: "units_cm exampleX = 10" "protoLayerOf exampleX = (\<lambda>surfaces. exampleProto)"
    by (simp_all add: exampleX_def)
  have d: "extension ?d = Some exampleExtension" "isSensitive ?d" "volMaterial ?d = silicon"
    "worldTransformation ?d = exampleMatrix" "GetShape ?d = Some (TGeoTubeSeg 10 100 1)"
    "collectSensitive (exampleConfig []) exampleX ?d [] (axes exampleExtension) = []"
    by (simp_all add: exampleElement_def)
  have e: "\<not> buildEnvelope exampleExtension"
    by (simp add: exampleExtension_def)
  have zn: "negativeZExtent exampleX ?t 1 = (- 10, 10)"
    by (simp add: negativeZExtent_def example_transform u vsub_def vadd_def vscale_def)
  have zp: "positiveZExtent exampleX ?t 1 = (- 10, 10)"
    by (simp add: positiveZExtent_def example_transform u vsub_def vadd_def vscale_def)
  have pn: "negativeProtoLayer exampleX ?d exampleExtension [] ?t = Inr ?pl"
    by (simp add: negativeProtoLayer_def d e u zn)
  have pp: "positiveProtoLayer exampleX ?d exampleExtension [] ?t = Inr ?pl"
    by (simp add: positiveProtoLayer_def d e u zp)
  have mn: "map_option materialThickness (negativeSurfMaterial exampleX silicon ?pl) = Some 900"
    by (simp add: negativeSurfMaterial_def silicon_def silicon_is_not_vacuum)
  have mp: "map_option materialThickness (positiveSurfMaterial exampleX silicon ?pl) = Some 900"
    by (simp add: positiveSurfMaterial_def silicon_def silicon_is_not_vacuum)
  have n: "map_sum id (\<lambda>layer. (l_bounds layer, l_thickness layer,
        map_option materialThickness (l_material layer)))
     (negativeLayer (exampleConfig []) exampleX ?d) = Inr (RadialBounds 100 1000, 20, Some 900)"
    by (simp add: negativeLayer_def d pn mn Let_def)
  have p: "map_sum id (\<lambda>layer. (l_bounds layer, l_thickness layer,
        map_option materialThickness (l_material layer)))
     (positiveLayer (exampleConfig []) exampleX ?d) = Inr (RadialBounds 100 1000, 20, Some 900)"
    by (simp add: positiveLayer_def d pp mp Let_def)
  from n p show ?thesis by simp
qed

section \<open>A shape that is not a tube segment\<close>

text \<open>
  Claim C1.  An element without explicit envelope whose shape is not a tube segment
  should make the region call fail.  For a shape of another kind none of the three calls
  throws: each logs the error and goes on to dereference the null tube pointer, so the
  call has undefined behaviour instead of a failure its caller can see.  Only an element
  with no shape at all is refused, by \<^verbatim>\<open>std::logic_error\<close> with the element's name.
\<close>

theorem wrong_shape_reaches_null_dereference:
  "negativeLayers (exampleConfig [exampleElement (Some TGeoOtherShape) exampleExtension])
       exampleX = Inl UndefinedBehaviour
   \<and> centralLayers (exampleConfig [exampleElement (Some TGeoOtherShape) exampleExtension])
       exampleX = Inl UndefinedBehaviour
   \<and> positiveLayers (exampleConfig [exampleElement (Some TGeoOtherShape) exampleExtension])
       exampleX = Inl UndefinedBehaviour
   \<and> negativeLayers (exampleConfig [exampleElement None exampleExtension])
       exampleX = Inl (LogicError ''layer'')
   \<and> centralLayers (exampleConfig [exampleElement None exampleExtension])
       exampleX = Inl (LogicError ''layer'')
   \<and> positiveLayers (exampleConfig [exampleElement None exampleExtension])
       exampleX = Inl (LogicError ''layer'')"
proof -
  have e: "\<not> buildEnvelope exampleExtension"
    by (simp add: exampleExtension_def)
  have p: "negativeProtoLayer X (exampleElement (Some TGeoOtherShape) exampleExtension)
             exampleExtension s t = Inl UndefinedBehaviour"
    "centralProtoLayer X (exampleElement (Some TGeoOtherShape) exampleExtension)
             exampleExtension s t = Inl UndefinedBehaviour"
    "positiveProtoLayer X (exampleElement (Some TGeoOtherShape) exampleExtension)
             exampleExtension s t = Inl UndefinedBehaviour"
    "negativeProtoLayer X (exampleElement None exampleExtension)
             exampleExtension s t = Inl (LogicError ''layer'')"
    "centralProtoLayer X (exampleElement None exampleExtension)
             exampleExtension s t = Inl (LogicError ''layer'')"
    "positiveProtoLayer X (exampleElement None exampleExtension)
             exampleExtension s t = Inl (LogicError ''layer'')"
    for X s t
    by (simp_all add: negativeProtoLayer_def centralProtoLayer_def positiveProtoLayer_def e
        exampleElement_def)
  have x: "extension (exampleElement shape exampleExtension) = Some exampleExtension" for shape
    by (simp add: exampleElement_def)
  have l: "negativeLayer cfg X (exampleElement (Some TGeoOtherShape) exampleExtension)
             = Inl UndefinedBehaviour"
    "centralLayer cfg X (exampleElement (Some TGeoOtherShape) exampleExtension)
             = Inl UndefinedBehaviour"
    "positiveLayer cfg X (exampleElement (Some TGeoOtherShape) exampleExtension)
             = Inl UndefinedBehaviour"
    "negativeLayer cfg X (exampleElement None exampleExtension) = Inl (LogicError ''layer'')"
    "centralLayer cfg X (exampleElement None exampleExtension) = Inl (LogicError ''layer'')"
    "positiveLayer cfg X (exampleElement None exampleExtension) = Inl (LogicError ''layer'')"
    for cfg X
    by (simp_all add: negativeLayer_def centralLayer_def positiveLayer_def x p Let_def)
  show ?thesis
    by (simp add: negativeLayers_def centralLayers_def positiveLayers_def exampleConfig_def l)
qed

section \<open>Approach surfaces of a layer\<close>

lemma negative_descriptor_three:
  assumes "hasSupportMaterial e"
  shows "\<exists>ss. negativeApproachDescriptor e pl t = Some ss \<and> length ss = 3
           \<and> length (filter carriesProxy ss) = 1"
proof -
  obtain tI tO p where
    "negativeApproachDescriptor e pl t =
       Some [DiscSurface tI (minR pl) (maxR pl)
               (if layerMaterialPosition e = inner then Some p else None),
             DiscSurface tO (minR pl) (maxR pl)
               (if layerMaterialPosition e = outer then Some p else None),
             DiscSurface t (minR pl) (maxR pl)
               (if layerMaterialPosition e = central then Some p else None)]"
    using negative_approach_surfaces [OF assms, of pl t] by blast
  then show ?thesis
    using one_proxy_disc [of tI "minR pl" "maxR pl" "layerMaterialPosition e" p tO t] by simp
qed

lemma positive_descriptor_three:
  assumes "hasSupportMaterial e"
  shows "\<exists>ss. positiveApproachDescriptor e pl t = Some ss \<and> length ss = 3
           \<and> length (filter carriesProxy ss) = 1"
proof -
  obtain tI tO p where
    "positiveApproachDescriptor e pl t =
       Some [DiscSurface tI (minR pl) (maxR pl)
               (if layerMaterialPosition e = inner then Some p else None),
             DiscSurface t (minR pl) (maxR pl)
               (if layerMaterialPosition e = central then Some p else None),
             DiscSurface tO (minR pl) (maxR pl)
               (if layerMaterialPosition e = outer then Some p else None)]"
    using positive_approach_surfaces [OF assms, of pl t] by blast
  then show ?thesis
    using one_proxy_disc' [of tI "minR pl" "maxR pl" "layerMaterialPosition e" p t tO] by simp
qed

lemma central_descriptor_three:
  assumes "hasSupportMaterial e"
  shows "\<exists>ss. centralApproachDescriptor e pl t h = Some ss \<and> length ss = 3
           \<and> length (filter carriesProxy ss) = 1"
proof -
  obtain p where
    "centralApproachDescriptor e pl t h =
       Some [CylinderSurface t (minR pl) h
               (if layerMaterialPosition e = inner then Some p else None),
             CylinderSurface t ((minR pl + maxR pl) / 2) h
               (if layerMaterialPosition e = central then Some p else None),
             CylinderSurface t (maxR pl) h
               (if layerMaterialPosition e = outer then Some p else None)]"
    using central_approach_surfaces [OF assms, of pl t h] by blast
  then show ?thesis
    using one_proxy_cylinder [of t "minR pl" h "layerMaterialPosition e" p t
        "(minR pl + maxR pl) / 2" t "maxR pl"] by simp
qed

lemma negativeLayer_descriptor:
  assumes "extension d = Some e"
    and "negativeProtoLayer X d e (collectSensitive cfg X d [] (axes e))
           (convertTransform X (worldTransformation d)) = Inr pl"
    and "negativeApproachDescriptor e pl (convertTransform X (worldTransformation d)) = ad"
  shows "if isSensitive d
         then \<exists>layer. negativeLayer cfg X d = Inr layer \<and> l_approachDescriptor layer = ad
         else negativeLayer cfg X d =
                Inr ((cfg_discLayer cfg (collectSensitive cfg X d [] (axes e))
                        (bTypeR cfg) (bTypePhi cfg) pl
                        (convertTransform X (worldTransformation d)) ad)
                     \<lparr> l_material := negativeSurfMaterial X (volMaterial d) pl \<rparr>)"
  using assms by (simp add: negativeLayer_def Let_def)

lemma positiveLayer_descriptor:
  assumes "extension d = Some e"
    and "positiveProtoLayer X d e (collectSensitive cfg X d [] (axes e))
           (convertTransform X (worldTransformation d)) = Inr pl"
    and "positiveApproachDescriptor e pl (convertTransform X (worldTransformation d)) = ad"
  shows "if isSensitive d
         then \<exists>layer. positiveLayer cfg X d = Inr layer \<and> l_approachDescriptor layer = ad
         else positiveLayer cfg X d =
                Inr ((cfg_discLayer cfg (collectSensitive cfg X d [] (axes e))
                        (bTypeR cfg) (bTypePhi cfg) pl
                        (convertTransform X (worldTransformation d)) ad)
                     \<lparr> l_material := positiveSurfMaterial X (volMaterial d) pl \<rparr>)"
  using assms by (simp add: positiveLayer_def Let_def)

lemma centralLayer_descriptor:
  assumes "extension d = Some e"
    and "centralProtoLayer X d e (collectSensitive cfg X d [] (axes e))
           (convertTransform X (worldTransformation d)) = Inr pl"
    and "centralApproachDescriptor e pl (convertTransform X (worldTransformation d))
           (centralHalfZ pl) = ad"
  shows "if isSensitive d
         then \<exists>layer. centralLayer cfg X d = Inr layer \<and> l_approachDescriptor layer = ad
         else centralLayer cfg X d =
                Inr ((cfg_cylinderLayer cfg (collectSensitive cfg X d [] (axes e))
                        (bTypePhi cfg) (bTypeZ cfg) pl
                        (convertTransform X (worldTransformation d)) ad)
                     \<lparr> l_material := centralSurfMaterial X (volMaterial d) pl \<rparr>)"
  using assms by (simp add: centralLayer_def Let_def)

text \<open>
  Claim C3.  When the extension asks for support material, each pipeline builds three
  boundary surfaces of its family; the proxy sits on the surface the position names
  (inner, central or outer) and on no other, so exactly one of the three carries
  material.  For a disc layer the inner position is the lower one along z.  For an
  element of a region whose proto layer is \<open>pl\<close>, these three surfaces are the approach
  descriptor of the layer built for a sensitive element, and the descriptor handed to the
  layer creator for any other element.
\<close>

theorem support_material_one_proxy:
  assumes "hasSupportMaterial e"
  shows "(\<exists>tI tO p ss. negativeApproachDescriptor e pl t = Some ss
            \<and> ss = [DiscSurface tI (minR pl) (maxR pl)
                       (if layerMaterialPosition e = inner then Some p else None),
                     DiscSurface tO (minR pl) (maxR pl)
                       (if layerMaterialPosition e = outer then Some p else None),
                     DiscSurface t (minR pl) (maxR pl)
                       (if layerMaterialPosition e = central then Some p else None)]
            \<and> vz (translation tI) \<le> vz (translation tO)
            \<and> length (filter carriesProxy ss) = 1)
       \<and> (\<exists>p ss. centralApproachDescriptor e pl t h = Some ss
            \<and> ss = [CylinderSurface t (minR pl) h
                       (if layerMaterialPosition e = inner then Some p else None),
                     CylinderSurface t ((minR pl + maxR pl) / 2) h
                       (if layerMaterialPosition e = central then Some p else None),
                     CylinderSurface t (maxR pl) h
                       (if layerMaterialPosition e = outer then Some p else None)]
            \<and> length (filter carriesProxy ss) = 1)
       \<and> (\<exists>tI tO p ss. positiveApproachDescriptor e pl t = Some ss
            \<and> ss = [DiscSurface tI (minR pl) (maxR pl)
                       (if layerMaterialPosition e = inner then Some p else None),
                     DiscSurface t (minR pl) (maxR pl)
                       (if layerMaterialPosition e = central then Some p else None),
                     DiscSurface tO (minR pl) (maxR pl)
                       (if layerMaterialPosition e = outer then Some p else None)]
            \<and> vz (translation tI) \<le> vz (translation tO)
            \<and> length (filter carriesProxy ss) = 1)
       \<and> (extension d = Some e
        \<and> negativeProtoLayer X d e (collectSensitive cfg X d [] (axes e))
              (convertTransform X (worldTransformation d)) = Inr pl \<longrightarrow>
        (\<exists>ss. negativeApproachDescriptor e pl (convertTransform X (worldTransformation d)) = Some ss
           \<and> length ss = 3 \<and> length (filter carriesProxy ss) = 1
           \<and> (if isSensitive d
               then \<exists>layer. negativeLayer cfg X d = Inr layer \<and> l_approachDescriptor layer = Some ss
               else negativeLayer cfg X d =
                      Inr ((cfg_discLayer cfg (collectSensitive cfg X d [] (axes e))
                              (bTypeR cfg) (bTypePhi cfg) pl
                              (convertTransform X (worldTransformation d)) (Some ss))
                           \<lparr> l_material := negativeSurfMaterial X (volMaterial d) pl \<rparr>))))
       \<and> (extension d = Some e
        \<and> centralProtoLayer X d e (collectSensitive cfg X d [] (axes e))
              (convertTransform X (worldTransformation d)) = Inr pl \<longrightarrow>
        (\<exists>ss. centralApproachDescriptor e pl (convertTransform X (worldTransformation d)) (centralHalfZ pl) = Some ss
           \<and> length ss = 3 \<and> length (filter carriesProxy ss) = 1
           \<and> (if isSensitive d
               then \<exists>layer. centralLayer cfg X d = Inr layer \<and> l_approachDescriptor layer = Some ss
               else centralLayer cfg X d =
                      Inr ((cfg_cylinderLayer cfg (collectSensitive cfg X d [] (axes e))
                              (bTypePhi cfg) (bTypeZ cfg) pl
                              (convertTransform X (worldTransformation d)) (Some ss))
                           \<lparr> l_material := centralSurfMaterial X (volMaterial d) pl \<rparr>))))
       \<and> (extension d = Some e
        \<and> positiveProtoLayer X d e (collectSensitive cfg X d [] (axes e))
              (convertTransform X (worldTransformation d)) = Inr pl \<longrightarrow>
        (\<exists>ss. positiveApproachDescriptor e pl (convertTransform X (worldTransformation d)) = Some ss
           \<and> length ss = 3 \<and> length (filter carriesProxy ss) = 1
           \<and> (if isSensitive d
               then \<exists>layer. positiveLayer cfg X d = Inr layer \<and> l_approachDescriptor layer = Some ss
               else positiveLayer cfg X d =
                      Inr ((cfg_discLayer cfg (collectSensitive cfg X d [] (axes e))
                              (bTypeR cfg) (bTypePhi cfg) pl
                              (convertTransform X (worldTransformation d)) (Some ss))
                           \<lparr> l_material := positiveSurfMaterial X (volMaterial d) pl \<rparr>))))"
proof (intro conjI impI)
  obtain tI tO p where
    "negativeApproachDescriptor e pl t =
       Some [DiscSurface tI (minR pl) (maxR pl)
               (if layerMaterialPosition e = inner then Some p else None),
             DiscSurface tO (minR pl) (maxR pl)
               (if layerMaterialPosition e = outer then Some p else None),
             DiscSurface t (minR pl) (maxR pl)
               (if layerMaterialPosition e = central then Some p else None)]"
    and "vz (translation tI) \<le> vz (translation tO)"
    using negative_approach_surfaces [OF assms, of pl t] by blast
  then show "\<exists>tI tO p ss. negativeApproachDescriptor e pl t = Some ss
            \<and> ss = [DiscSurface tI (minR pl) (maxR pl)
                       (if layerMaterialPosition e = inner then Some p else None),
                     DiscSurface tO (minR pl) (maxR pl)
                       (if layerMaterialPosition e = outer then Some p else None),
                     DiscSurface t (minR pl) (maxR pl)
                       (if layerMaterialPosition e = central then Some p else None)]
            \<and> vz (translation tI) \<le> vz (translation tO)
            \<and> length (filter carriesProxy ss) = 1"
    using one_proxy_disc [of tI "minR pl" "maxR pl" "layerMaterialPosition e" p tO t] by blast
next
  obtain p where
    "centralApproachDescriptor e pl t h =
       Some [CylinderSurface t (minR pl) h
               (if layerMaterialPosition e = inner then Some p else None),
             CylinderSurface t ((minR pl + maxR pl) / 2) h
               (if layerMaterialPosition e = central then Some p else None),
             CylinderSurface t (maxR pl) h
               (if layerMaterialPosition e = outer then Some p else None)]"
    using central_approach_surfaces [OF assms, of pl t h] by blast
  then show "\<exists>p ss. centralApproachDescriptor e pl t h = Some ss
            \<and> ss = [CylinderSurface t (minR pl) h
                       (if layerMaterialPosition e = inner then Some p else None),
                     CylinderSurface t ((minR pl + maxR pl) / 2) h
                       (if layerMaterialPosition e = central then Some p else None),
                     CylinderSurface t (maxR pl) h
                       (if layerMaterialPosition e = outer then Some p else None)]
            \<and> length (filter carriesProxy ss) = 1"
    using one_proxy_cylinder [of t "minR pl" h "layerMaterialPosition e" p t
        "(minR pl + maxR pl) / 2" t "maxR pl"] by blast
next
  obtain tI tO p where
    "positiveApproachDescriptor e pl t =
       Some [DiscSurface tI (minR pl) (maxR pl)
               (if layerMaterialPosition e = inner then Some p else None),
             DiscSurface t (minR pl) (maxR pl)
               (if layerMaterialPosition e = central then Some p else None),
             DiscSurface tO (minR pl) (maxR pl)
               (if layerMaterialPosition e = outer then Some p else None)]"
    and "vz (translation tI) \<le> vz (translation tO)"
    using positive_approach_surfaces [OF assms, of pl t] by blast
  then show "\<exists>tI tO p ss. positiveApproachDescriptor e pl t = Some ss
            \<and> ss = [DiscSurface tI (minR pl) (maxR pl)
                       (if layerMaterialPosition e = inner then Some p else None),
                     DiscSurface t (minR pl) (maxR pl)
                       (if layerMaterialPosition e = central then Some p else None),
                     DiscSurface tO (minR pl) (maxR pl)
                       (if layerMaterialPosition e = outer then Some p else None)]
            \<and> vz (translation tI) \<le> vz (translation tO)
            \<and> length (filter carriesProxy ss) = 1"
    using one_proxy_disc' [of tI "minR pl" "maxR pl" "layerMaterialPosition e" p t tO] by blast
next
  assume a: "extension d = Some e
        \<and> negativeProtoLayer X d e (collectSensitive cfg X d [] (axes e))
              (convertTransform X (worldTransformation d)) = Inr pl"
  obtain ss where ss: "negativeApproachDescriptor e pl (convertTransform X (worldTransformation d)) = Some ss" "length ss = 3" "length (filter carriesProxy ss) = 1"
    using negative_descriptor_three [OF assms, of pl "convertTransform X (worldTransformation d)"] by blast
  from a have "extension d = Some e"
    and "negativeProtoLayer X d e (collectSensitive cfg X d [] (axes e))
              (convertTransform X (worldTransformation d)) = Inr pl"
    by simp_all
  from negativeLayer_descriptor [OF this ss(1)] ss
  show "\<exists>ss. negativeApproachDescriptor e pl (convertTransform X (worldTransformation d)) = Some ss
           \<and> length ss = 3 \<and> length (filter carriesProxy ss) = 1
           \<and> (if isSensitive d
               then \<exists>layer. negativeLayer cfg X d = Inr layer \<and> l_approachDescriptor layer = Some ss
               else negativeLayer cfg X d =
                      Inr ((cfg_discLayer cfg (collectSensitive cfg X d [] (axes e))
                              (bTypeR cfg) (bTypePhi cfg) pl
                              (convertTransform X (worldTransformation d)) (Some ss))
                           \<lparr> l_material := negativeSurfMaterial X (volMaterial d) pl \<rparr>))"
    by blast
next
  assume a: "extension d = Some e
        \<and> centralProtoLayer X d e (collectSensitive cfg X d [] (axes e))
              (convertTransform X (worldTransformation d)) = Inr pl"
  obtain ss where ss: "centralApproachDescriptor e pl (convertTransform X (worldTransformation d)) (centralHalfZ pl) = Some ss" "length ss = 3" "length (filter carriesProxy ss) = 1"
    using central_descriptor_three [OF assms, of pl "convertTransform X (worldTransformation d)" "centralHalfZ pl"] by blast
  from a have "extension d = Some e"
    and "centralProtoLayer X d e (collectSensitive cfg X d [] (axes e))
              (convertTransform X (worldTransformation d)) = Inr pl"
    by simp_all
  from centralLayer_descriptor [OF this ss(1)] ss
  show "\<exists>ss. centralApproachDescriptor e pl (convertTransform X (worldTransformation d)) (centralHalfZ pl) = Some ss
           \<and> length ss = 3 \<and> length (filter carriesProxy ss) = 1
           \<and> (if isSensitive d
               then \<exists>layer. centralLayer cfg X d = Inr layer \<and> l_approachDescriptor layer = Some ss
               else centralLayer cfg X d =
                      Inr ((cfg_cylinderLayer cfg (collectSensitive cfg X d [] (axes e))
                              (bTypePhi cfg) (bTypeZ cfg) pl
                              (convertTransform X (worldTransformation d)) (Some ss))
                           \<lparr> l_material := centralSurfMaterial X (volMaterial d) pl \<rparr>))"
    by blast
next
  assume a: "extension d = Some e
        \<and> positiveProtoLayer X d e (collectSensitive cfg X d [] (axes e))
              (convertTransform X (worldTransformation d)) = Inr pl"
  obtain ss where ss: "positiveApproachDescriptor e pl (convertTransform X (worldTransformation d)) = Some ss" "length ss = 3" "length (filter carriesProxy ss) = 1"
    using positive_descriptor_three [OF assms, of pl "convertTransform X (worldTransformation d)"] by blast
  from a have "extension d = Some e"
    and "positiveProtoLayer X d e (collectSensitive cfg X d [] (axes e))
              (convertTransform X (worldTransformation d)) = Inr pl"
    by simp_all
  from positiveLayer_descriptor [OF this ss(1)] ss
  show "\<exists>ss. positiveApproachDescriptor e pl (convertTransform X (worldTransformation d)) = Some ss
           \<and> length ss = 3 \<and> length (filter carriesProxy ss) = 1
           \<and> (if isSensitive d
               then \<exists>layer. positiveLayer cfg X d = Inr layer \<and> l_approachDescriptor layer = Some ss
               else positiveLayer cfg X d =
                      Inr ((cfg_discLayer cfg (collectSensitive cfg X d [] (axes e))
                              (bTypeR cfg) (bTypePhi cfg) pl
                              (convertTransform X (worldTransformation d)) (Some ss))
                           \<lparr> l_material := positiveSurfMaterial X (volMaterial d) pl \<rparr>))"
    by blast
qed

theorem support_material_one_proxy_witness:
  "hasSupportMaterial exampleExtension
   \<and> (\<exists>ss. length ss = 3 \<and> length (filter carriesProxy ss) = 1
         \<and> (\<exists>layer. negativeLayer (exampleConfig []) exampleX
                (exampleElement (Some (TGeoTubeSeg 1 2 5)) exampleExtension) = Inr layer
              \<and> l_approachDescriptor layer = Some ss))
   \<and> (\<exists>ss. length ss = 3 \<and> length (filter carriesProxy ss) = 1
         \<and> (\<exists>layer. centralLayer (exampleConfig []) exampleX
                (exampleElement (Some (TGeoTubeSeg 1 2 5)) exampleExtension) = Inr layer
              \<and> l_approachDescriptor layer = Some ss))
   \<and> (\<exists>ss. length ss = 3 \<and> length (filter carriesProxy ss) = 1
         \<and> (\<exists>layer. positiveLayer (exampleConfig []) exampleX
                (exampleElement (Some (TGeoTubeSeg 1 2 5)) exampleExtension) = Inr layer
              \<and> l_approachDescriptor layer = Some ss))
   \<and> (\<exists>ss. length ss = 3 \<and> length (filter carriesProxy ss) = 1
         \<and> map_sum id l_approachDescriptor
              (negativeLayer (exampleConfig []) exampleX exampleParent) = Inr (Some ss))"
proof -
  let ?d = "exampleElement (Some (TGeoTubeSeg 1 2 5)) exampleExtension"
  let ?cfg = "exampleConfig []"
  let ?pl = "exampleProto \<lparr> minR := 10, maxR := 20, minZ := - 50, maxZ := 50,
                envR := (0, 0), envZ := (0, 0) \<rparr>"
  let ?pl' = "exampleProto \<lparr> envZ := (45, 45), envR := (20, 20) \<rparr>"
  have h: "hasSupportMaterial exampleExtension"
    by (simp add: exampleExtension_def)
  have e: "\<not> buildEnvelope exampleExtension"
    by (simp add: exampleExtension_def)
  have ax: "axes exampleExtension = ''XYZ''"
    by (simp add: exampleExtension_def)
  have u: "units_cm exampleX = 10" "protoLayerOf exampleX = (\<lambda>surfaces. exampleProto)"
    by (simp_all add: exampleX_def)
  have d: "extension ?d = Some exampleExtension" "isSensitive ?d"
    "worldTransformation ?d = exampleMatrix" "GetShape ?d = Some (TGeoTubeSeg 1 2 5)"
    "collectSensitive ?cfg exampleX ?d [] (axes exampleExtension) = []"
    by (simp_all add: exampleElement_def)
  have d': "extension exampleParent = Some exampleExtension" "\<not> isSensitive exampleParent"
    "worldTransformation exampleParent = exampleMatrix"
    "GetShape exampleParent = Some (TGeoTubeSeg 1 2 5)"
    "collectSensitive ?cfg exampleX exampleParent [] (axes exampleExtension) =
       [createSensitiveSurface ?cfg exampleX (moduleElement True) False ''XYZ'']"
    by (simp_all add: exampleParent_def moduleElement_def ax)
  have z: "negativeZExtent exampleX (convertTransform exampleX exampleMatrix) 5 = (- 50, 50)"
    "positiveZExtent exampleX (convertTransform exampleX exampleMatrix) 5 = (- 50, 50)"
    by (simp_all add: negativeZExtent_def positiveZExtent_def example_transform u
        vsub_def vadd_def vscale_def)
  have pn: "negativeProtoLayer exampleX ?d exampleExtension
      (collectSensitive ?cfg exampleX ?d [] (axes exampleExtension))
      (convertTransform exampleX (worldTransformation ?d)) = Inr ?pl"
    by (simp add: negativeProtoLayer_def d e u z)
  have pc: "centralProtoLayer exampleX ?d exampleExtension
      (collectSensitive ?cfg exampleX ?d [] (axes exampleExtension))
      (convertTransform exampleX (worldTransformation ?d)) = Inr ?pl"
    by (simp add: centralProtoLayer_def d e u)
  have pp: "positiveProtoLayer exampleX ?d exampleExtension
      (collectSensitive ?cfg exampleX ?d [] (axes exampleExtension))
      (convertTransform exampleX (worldTransformation ?d)) = Inr ?pl"
    by (simp add: positiveProtoLayer_def d e u z)
  have pn': "negativeProtoLayer exampleX exampleParent exampleExtension
      (collectSensitive ?cfg exampleX exampleParent [] (axes exampleExtension))
      (convertTransform exampleX (worldTransformation exampleParent)) = Inr ?pl'"
    by (simp add: negativeProtoLayer_def d' e u z exampleProto_def)
  note t = support_material_one_proxy [OF h, where d = ?d and X = exampleX and cfg = ?cfg
      and pl = ?pl and t = "convertTransform exampleX exampleMatrix" and h = 0]
  note t' = support_material_one_proxy [OF h, where d = exampleParent and X = exampleX
      and cfg = ?cfg and pl = ?pl' and t = "convertTransform exampleX exampleMatrix" and h = 0]
  note tn = t [THEN conjunct2, THEN conjunct2, THEN conjunct2, THEN conjunct1]
  note tc = t [THEN conjunct2, THEN conjunct2, THEN conjunct2, THEN conjunct2, THEN conjunct1]
  note tp = t [THEN conjunct2, THEN conjunct2, THEN conjunct2, THEN conjunct2, THEN conjunct2]
  note tn' = t' [THEN conjunct2, THEN conjunct2, THEN conjunct2, THEN conjunct1]
  have n: "\<exists>ss. length ss = 3 \<and> length (filter carriesProxy ss) = 1
         \<and> (\<exists>layer. negativeLayer ?cfg exampleX ?d = Inr layer
              \<and> l_approachDescriptor layer = Some ss)"
    using tn d(1,2) pn by auto
  have c: "\<exists>ss. length ss = 3 \<and> length (filter carriesProxy ss) = 1
         \<and> (\<exists>layer. centralLayer ?cfg exampleX ?d = Inr layer
              \<and> l_approachDescriptor layer = Some ss)"
    using tc d(1,2) pc by auto
  have p: "\<exists>ss. length ss = 3 \<and> length (filter carriesProxy ss) = 1
         \<and> (\<exists>layer. positiveLayer ?cfg exampleX ?d = Inr layer
              \<and> l_approachDescriptor layer = Some ss)"
    using tp d(1,2) pp by auto
  have n': "\<exists>ss. length ss = 3 \<and> length (filter carriesProxy ss) = 1
         \<and> map_sum id l_approachDescriptor (negativeLayer ?cfg exampleX exampleParent)
             = Inr (Some ss)"
    using tn' d'(1,2) pn' by (auto simp: exampleConfig_def exampleLayerCreator_def)
  from h n c p n' show ?thesis by blast
qed

section \<open>Order of the approach surfaces\<close>

lemma disc_boundary_positions_ordered:
  "vz (fst (discBoundaryPositions pl t)) \<le> vz (snd (discBoundaryPositions pl t))"
  by (simp add: discBoundaryPositions_def Let_def)

lemma negative_descriptor_surfaces:
  "negativeApproachDescriptor e pl t =
     (if hasSupportMaterial e
      then Some [discInnerBoundary e pl t, discOuterBoundary e pl t, discCentralSurface e pl t]
      else None)"
  by (cases "layerMaterialPosition e")
     (simp_all add: negativeApproachDescriptor_def discInnerBoundary_def discOuterBoundary_def
        discCentralSurface_def discBoundaryPositions_def discProxy_def proxyAt_def Let_def)

lemma positive_descriptor_surfaces:
  "positiveApproachDescriptor e pl t =
     (if hasSupportMaterial e
      then Some [discInnerBoundary e pl t, discCentralSurface e pl t, discOuterBoundary e pl t]
      else None)"
  by (cases "layerMaterialPosition e")
     (simp_all add: positiveApproachDescriptor_def discInnerBoundary_def discOuterBoundary_def
        discCentralSurface_def discBoundaryPositions_def discProxy_def proxyAt_def Let_def)

text \<open>
  Claim C9.  The negative pipeline hands its approach surfaces over in the order inner,
  outer, central, the positive one in the order inner, central, outer, the inner boundary
  being the lower one along z and the central surface the one at the layer's own
  transform.  Nothing else distinguishes the two: proto layer and bulk material are the
  same functions, the descriptor of the one is that of the other reordered, and so is the
  layer built for an element (for an element that is not sensitive, the descriptor
  reaches the layer creator reordered).
\<close>

theorem disc_pipelines_differ_in_order_only:
  "negativeApproachDescriptor e pl t =
     (if hasSupportMaterial e
      then Some [discInnerBoundary e pl t, discOuterBoundary e pl t, discCentralSurface e pl t]
      else None)
   \<and> positiveApproachDescriptor e pl t =
     (if hasSupportMaterial e
      then Some [discInnerBoundary e pl t, discCentralSurface e pl t, discOuterBoundary e pl t]
      else None)
   \<and> vz (fst (discBoundaryPositions pl t)) \<le> vz (snd (discBoundaryPositions pl t))
   \<and> negativeApproachDescriptor e pl t =
       map_option innerOuterCentral (positiveApproachDescriptor e pl t)
   \<and> negativeProtoLayer X d e s t = positiveProtoLayer X d e s t
   \<and> negativeSurfMaterial X m pl = positiveSurfMaterial X m pl
   \<and> (isSensitive d \<longrightarrow>
        negativeLayer cfg X d =
          map_sum id
            (\<lambda>layer. layer \<lparr> l_approachDescriptor :=
                 map_option innerOuterCentral (l_approachDescriptor layer) \<rparr>)
            (positiveLayer cfg X d))
   \<and> (\<not> isSensitive d \<longrightarrow>
        negativeLayer cfg X d =
          positiveLayer
            (cfg \<lparr> cfg_discLayer := (\<lambda>surfaces b1 b2 p tr ad.
                 cfg_discLayer cfg surfaces b1 b2 p tr (map_option innerOuterCentral ad)) \<rparr>)
            X d)"
proof (intro conjI impI)
  show "negativeApproachDescriptor e pl t =
     (if hasSupportMaterial e
      then Some [discInnerBoundary e pl t, discOuterBoundary e pl t, discCentralSurface e pl t]
      else None)"
    by (rule negative_descriptor_surfaces)
  show "positiveApproachDescriptor e pl t =
     (if hasSupportMaterial e
      then Some [discInnerBoundary e pl t, discCentralSurface e pl t, discOuterBoundary e pl t]
      else None)"
    by (rule positive_descriptor_surfaces)
  show "vz (fst (discBoundaryPositions pl t)) \<le> vz (snd (discBoundaryPositions pl t))"
    by (rule disc_boundary_positions_ordered)
  show "negativeApproachDescriptor e pl t =
       map_option innerOuterCentral (positiveApproachDescriptor e pl t)"
    by (rule disc_descriptors_reordered)
  show "negativeProtoLayer X d e s t = positiveProtoLayer X d e s t"
    by (rule disc_proto_layers_agree)
  show "negativeSurfMaterial X m pl = positiveSurfMaterial X m pl"
    by (rule disc_materials_agree)
next
  assume "isSensitive d"
  then show "negativeLayer cfg X d =
          map_sum id
            (\<lambda>layer. layer \<lparr> l_approachDescriptor :=
                 map_option innerOuterCentral (l_approachDescriptor layer) \<rparr>)
            (positiveLayer cfg X d)"
    by (simp add: negativeLayer_def positiveLayer_def Let_def disc_proto_layers_agree
        disc_materials_agree disc_descriptors_reordered split: option.splits sum.splits)
next
  assume "\<not> isSensitive d"
  then show "negativeLayer cfg X d =
          positiveLayer
            (cfg \<lparr> cfg_discLayer := (\<lambda>surfaces b1 b2 p tr ad.
                 cfg_discLayer cfg surfaces b1 b2 p tr (map_option innerOuterCentral ad)) \<rparr>)
            X d"
    by (simp add: negativeLayer_def positiveLayer_def Let_def disc_proto_layers_agree
        disc_materials_agree disc_descriptors_reordered collectSensitive_discLayer_update
        split: option.splits sum.splits)
qed

lemma example_boundary_positions:
  "discBoundaryPositions exampleProto (convertTransform exampleX exampleMatrix) =
     (Vector3D 0 0 (- 5), Vector3D 0 0 5)"
  by (simp add: discBoundaryPositions_def example_transform exampleProto_def
      vsub_def vadd_def vscale_def Let_def)

theorem disc_pipelines_differ_in_order_only_witness:
  "isSensitive (exampleElement (Some (TGeoTubeSeg 1 2 5)) exampleExtension)
   \<and> \<not> isSensitive exampleParent
   \<and> negativeApproachDescriptor exampleExtension exampleProto
        (convertTransform exampleX exampleMatrix) =
       Some [DiscSurface \<lparr> rotation = rotation (convertTransform exampleX exampleMatrix),
                           translation = Vector3D 0 0 (- 5) \<rparr> 30 40 None,
             DiscSurface \<lparr> rotation = rotation (convertTransform exampleX exampleMatrix),
                           translation = Vector3D 0 0 5 \<rparr> 30 40 None,
             DiscSurface (convertTransform exampleX exampleMatrix) 30 40
               (Some (discProxy exampleExtension exampleProto
                  (convertTransform exampleX exampleMatrix)))]
   \<and> positiveApproachDescriptor exampleExtension exampleProto
        (convertTransform exampleX exampleMatrix) =
       Some [DiscSurface \<lparr> rotation = rotation (convertTransform exampleX exampleMatrix),
                           translation = Vector3D 0 0 (- 5) \<rparr> 30 40 None,
             DiscSurface (convertTransform exampleX exampleMatrix) 30 40
               (Some (discProxy exampleExtension exampleProto
                  (convertTransform exampleX exampleMatrix))),
             DiscSurface \<lparr> rotation = rotation (convertTransform exampleX exampleMatrix),
                           translation = Vector3D 0 0 5 \<rparr> 30 40 None]
   \<and> negativeApproachDescriptor exampleExtension exampleProto
        (convertTransform exampleX exampleMatrix)
     \<noteq> positiveApproachDescriptor exampleExtension exampleProto
        (convertTransform exampleX exampleMatrix)
   \<and> negativeLayer (exampleConfig []) exampleX
         (exampleElement (Some (TGeoTubeSeg 1 2 5)) exampleExtension) =
       map_sum id
         (\<lambda>layer. layer \<lparr> l_approachDescriptor :=
              map_option innerOuterCentral (l_approachDescriptor layer) \<rparr>)
         (positiveLayer (exampleConfig []) exampleX
            (exampleElement (Some (TGeoTubeSeg 1 2 5)) exampleExtension))
   \<and> negativeLayer (exampleConfig []) exampleX exampleParent =
       positiveLayer
         ((exampleConfig []) \<lparr> cfg_discLayer := (\<lambda>surfaces b1 b2 p tr ad.
              cfg_discLayer (exampleConfig []) surfaces b1 b2 p tr
                (map_option innerOuterCentral ad)) \<rparr>)
         exampleX exampleParent"
proof -
  let ?t = "convertTransform exampleX exampleMatrix"
  have h: "isSensitive (exampleElement (Some (TGeoTubeSeg 1 2 5)) exampleExtension)"
    "\<not> isSensitive exampleParent"
    by (simp_all add: exampleElement_def exampleParent_def)
  have x: "hasSupportMaterial exampleExtension" "layerMaterialPosition exampleExtension = central"
    by (simp_all add: exampleExtension_def)
  have r: "minR exampleProto = 30" "maxR exampleProto = 40"
    by (simp_all add: exampleProto_def)
  have i: "discInnerBoundary exampleExtension exampleProto ?t =
             DiscSurface \<lparr> rotation = rotation ?t, translation = Vector3D 0 0 (- 5) \<rparr> 30 40 None"
    by (simp add: discInnerBoundary_def example_boundary_positions proxyAt_def x r)
  have o: "discOuterBoundary exampleExtension exampleProto ?t =
             DiscSurface \<lparr> rotation = rotation ?t, translation = Vector3D 0 0 5 \<rparr> 30 40 None"
    by (simp add: discOuterBoundary_def example_boundary_positions proxyAt_def x r)
  have c: "discCentralSurface exampleExtension exampleProto ?t =
             DiscSurface ?t 30 40 (Some (discProxy exampleExtension exampleProto ?t))"
    by (simp add: discCentralSurface_def proxyAt_def x r)
  note a = disc_pipelines_differ_in_order_only [where e = exampleExtension and pl = exampleProto
        and t = ?t and X = exampleX
        and d = "exampleElement (Some (TGeoTubeSeg 1 2 5)) exampleExtension"
        and cfg = "exampleConfig []"]
  note b = disc_pipelines_differ_in_order_only [where X = exampleX and d = exampleParent
        and cfg = "exampleConfig []"]
  have n: "negativeApproachDescriptor exampleExtension exampleProto ?t =
      Some [DiscSurface \<lparr> rotation = rotation ?t, translation = Vector3D 0 0 (- 5) \<rparr> 30 40 None,
            DiscSurface \<lparr> rotation = rotation ?t, translation = Vector3D 0 0 5 \<rparr> 30 40 None,
            DiscSurface ?t 30 40 (Some (discProxy exampleExtension exampleProto ?t))]"
    using a by (simp only: x i o c if_True)
  have p: "positiveApproachDescriptor exampleExtension exampleProto ?t =
      Some [DiscSurface \<lparr> rotation = rotation ?t, translation = Vector3D 0 0 (- 5) \<rparr> 30 40 None,
            DiscSurface ?t 30 40 (Some (discProxy exampleExtension exampleProto ?t)),
            DiscSurface \<lparr> rotation = rotation ?t, translation = Vector3D 0 0 5 \<rparr> 30 40 None]"
    using a by (simp only: x i o c if_True)
  have ne: "negativeApproachDescriptor exampleExtension exampleProto ?t
     \<noteq> positiveApproachDescriptor exampleExtension exampleProto ?t"
    unfolding n p by simp
  from h a b n p ne show ?thesis by blast
qed

end
